theory Spec2Isabelle
  imports Complex_Main
begin

section \<open>Data model\<close>

text \<open>
  The four tables of the storefront (migration
  \<^verbatim>\<open>20251030120000_create_shopping_mall_schema.sql\<close>) and the server actions of
  \<^verbatim>\<open>actions/order.ts\<close>, \<^verbatim>\<open>actions/payment.ts\<close> and \<^verbatim>\<open>actions/cart.ts\<close>.

  Row identifiers are UUIDs drawn by the database (\<^verbatim>\<open>gen_random_uuid()\<close>); the model
  takes them from a counter kept beside the tables. Integer columns (\<^verbatim>\<open>quantity\<close>,
  \<^verbatim>\<open>stock_quantity\<close>) are \<open>int\<close>. Decimal columns and every JavaScript \<^verbatim>\<open>number\<close>
  that holds money are \<open>rat\<close>; the arithmetic on them is the rounded arithmetic of
  section \<open>JavaScript numbers\<close>. Columns that only feed the display (description,
  category, timestamps) are left out.
\<close>

type_synonym uuid = nat

record product =
  p_id :: uuid
  p_name :: string
  p_price :: rat
  p_stock_quantity :: int
  p_is_active :: bool

record cart_row =
  c_id :: uuid
  c_clerk_id :: string
  c_product_id :: uuid
  c_quantity :: int

datatype order_status = Pending | Confirmed | Shipped | Delivered | Cancelled

record shipping_address =
  customerName :: "string option"
  address :: string
  postalCode :: string
  addressDetail :: "string option"
  phoneNumber :: string

record order_row =
  o_id :: uuid
  o_clerk_id :: string
  o_total_amount :: rat
  o_status :: order_status
  o_shipping_address :: shipping_address
  o_order_note :: "string option"

record order_item_row =
  oi_order_id :: uuid
  oi_product_id :: uuid
  oi_product_name :: string
  oi_quantity :: int
  oi_price :: rat

record store =
  products :: "product list"
  cart_items :: "cart_row list"
  orders :: "order_row list"
  order_items :: "order_item_row list"
  next_uuid :: uuid

text \<open>
  Every result of the actions is \<^verbatim>\<open>{ success: true, ... }\<close> or
  \<^verbatim>\<open>{ success: false, error: <message> }\<close>. The messages are Korean sentences; each
  constructor below stands for one of them, named after the error kind of the specification
  where it has one.
\<close>

datatype error =
    NotAuthenticated
  | InvalidInput
  | CartLoadFailed
  | EmptyCart
  | InactiveProduct string
  | InsufficientStock "string option" int int
  | OutOfStock "string option"
  | AmountMismatch
  | OrderSaveFailed
  | OrderItemsSaveFailed
  | PaymentNotApproved
  | InternalError string
  | OrderNotFound
  | InvalidState
  | CancelFailed
  | InvalidQuantity
  | ProductLoadFailed
  | ProductNotOnSale
  | CartUpdateFailed
  | CartInsertFailed
  | CartClearFailed

section \<open>The environment of one invocation\<close>

text \<open>
  What an action cannot decide itself: who is signed in (\<^verbatim>\<open>auth()\<close>), which store calls
  come back with an error, and what the payment gateway answers. Every store call of the
  actions has a name here; \<open>fails\<close> says whether it comes back with an error, and without
  effect on the store, in this invocation.
\<close>

datatype store_call =
    CartSelect
  | OrderInsert
  | OrderItemsInsert
  | OrderDelete
  | ProductSelect uuid
  | ProductUpdate uuid
  | CartClear
  | OrderSelect
  | OrderUpdate
  | CartProductSelect
  | CartItemSelect
  | CartItemUpdate
  | CartItemInsert

datatype fetch_result =
    FetchThrows string
  | FetchResponse bool string string

record env =
  auth :: "string option"
  fails :: "store_call \<Rightarrow> bool"
  toss_secret_key :: "string option"
  fetch :: fetch_result

text \<open>\<^verbatim>\<open>if (!userId)\<close>: \<^verbatim>\<open>null\<close> and the empty string are both rejected.\<close>

definition userId :: "env \<Rightarrow> string option" where
  "userId e = (case auth e of None \<Rightarrow> None | Some u \<Rightarrow> if u = [] then None else Some u)"

text \<open>
  \<^verbatim>\<open>.single()\<close>: the one row of the result; an error (and no data) when the result has
  no row or more than one.
\<close>

definition single :: "'a list \<Rightarrow> 'a option" where
  "single xs = (case xs of [x] \<Rightarrow> Some x | _ \<Rightarrow> None)"

section \<open>Order cancellation\<close>

text \<open>
  \<^verbatim>\<open>cancelOrder(orderId)\<close>: the order is read by id and owner, must be \<^verbatim>\<open>pending\<close>,
  and its status is set to \<^verbatim>\<open>cancelled\<close>. No other table is touched and the gateway is
  not part of this action.
\<close>

definition cancelOrder :: "env \<Rightarrow> store \<Rightarrow> uuid \<Rightarrow> store \<times> (error + unit)" where
  "cancelOrder e s orderId =
     (case userId e of
        None \<Rightarrow> (s, Inl NotAuthenticated)
      | Some u \<Rightarrow>
          (case (if fails e OrderSelect then None
                 else single (filter (\<lambda>r. o_id r = orderId \<and> o_clerk_id r = u) (orders s))) of
             None \<Rightarrow> (s, Inl OrderNotFound)
           | Some ord \<Rightarrow>
               if o_status ord \<noteq> Pending then (s, Inl InvalidState)
               else if fails e OrderUpdate then (s, Inl CancelFailed)
               else (s\<lparr>orders :=
                        map (\<lambda>r. if o_id r = orderId \<and> o_clerk_id r = u
                                 then r\<lparr>o_status := Cancelled\<rparr> else r) (orders s)\<rparr>,
                     Inr ())))"

section \<open>JavaScript numbers\<close>

text \<open>
  The actions compute money with the JavaScript \<^verbatim>\<open>number\<close> type: binary floating point
  with a 53-bit significand, every operation rounded to the nearest representable value,
  ties to the even significand. A number is modelled by the rational it denotes.
  \<open>to_double\<close> rounds a rational to 53 significant bits; the exponent is not bounded
  (amounts of money are far from the overflow and underflow thresholds), and NaN and the
  infinities are not values of the model.
\<close>

function bitlen :: "int \<Rightarrow> int" where
  "bitlen n = (if n \<le> 0 then 0 else 1 + bitlen (n div 2))"
  by pat_completeness auto
termination
  by (relation "measure nat") auto

declare bitlen.simps [simp del]

definition pow2 :: "int \<Rightarrow> rat" where
  "pow2 k = (if 0 \<le> k then 2 ^ nat k else 1 / 2 ^ nat (- k))"

text \<open>For \<open>x > 0\<close>, \<open>ilog2 x\<close> is the integer \<open>k\<close> with \<open>2\<^sup>k \<le> x < 2\<^sup>k\<^sup>+\<^sup>1\<close>.\<close>

definition ilog2 :: "rat \<Rightarrow> int" where
  "ilog2 x = (case quotient_of x of (a, b) \<Rightarrow>
     (let d = bitlen a - bitlen b in if pow2 d \<le> x then d else d - 1))"

definition round_half_even :: "rat \<Rightarrow> int" where
  "round_half_even q =
     (let f = \<lfloor>q\<rfloor>; d = q - of_int f
      in if d < 1 / 2 then f else if 1 / 2 < d then f + 1 else if even f then f else f + 1)"

definition to_double :: "rat \<Rightarrow> rat" where
  "to_double x =
     (if x = 0 then 0
      else (let k = ilog2 \<bar>x\<bar> - 52 in of_int (round_half_even (x / pow2 k)) * pow2 k))"

text \<open>
  \<^verbatim>\<open>a + b\<close>, \<^verbatim>\<open>a - b\<close> and \<^verbatim>\<open>a * b\<close> on numbers; \<^verbatim>\<open>Number(v)\<close> on a decimal column
  value; the literal \<^verbatim>\<open>0.01\<close>. \<^verbatim>\<open>Math.abs\<close> and the comparisons are exact.
\<close>

definition js_add :: "rat \<Rightarrow> rat \<Rightarrow> rat" where
  "js_add a b = to_double (a + b)"

definition js_sub :: "rat \<Rightarrow> rat \<Rightarrow> rat" where
  "js_sub a b = to_double (a - b)"

definition js_mul :: "rat \<Rightarrow> rat \<Rightarrow> rat" where
  "js_mul a b = to_double (a * b)"

definition Number :: "rat \<Rightarrow> rat" where
  "Number v = to_double v"

definition epsilon :: rat where
  "epsilon = to_double (1 / 100)"

section \<open>Cart query\<close>

text \<open>
  \<^verbatim>\<open>CartItem\<close>: a cart row with the product it refers to. \<^verbatim>\<open>getCartItems\<close> reads the
  caller's rows (the list \<open>cart_items\<close> is kept in the order of the query, newest first),
  joins each with its product, keeps the rows whose product exists and is active, and adds
  up \<^verbatim>\<open>Number(product.price) * item.quantity\<close> over the rows it keeps.
\<close>

record cart_item =
  ci_id :: uuid
  ci_clerk_id :: string
  ci_product_id :: uuid
  ci_quantity :: int
  ci_products :: product

fun cartItemsLoop ::
  "product list \<Rightarrow> cart_row list \<Rightarrow> rat \<Rightarrow> cart_item list \<Rightarrow> cart_item list \<times> rat" where
  "cartItemsLoop ps [] totalAmount validCartItems = (validCartItems, totalAmount)"
| "cartItemsLoop ps (item # items) totalAmount validCartItems =
     (case find (\<lambda>p. p_id p = c_product_id item) ps of
        None \<Rightarrow> cartItemsLoop ps items totalAmount validCartItems
      | Some product \<Rightarrow>
          if p_is_active product
          then cartItemsLoop ps items
                 (js_add totalAmount (js_mul (Number (p_price product)) (of_int (c_quantity item))))
                 (validCartItems @
                    [\<lparr>ci_id = c_id item, ci_clerk_id = c_clerk_id item,
                      ci_product_id = c_product_id item, ci_quantity = c_quantity item,
                      ci_products = product\<lparr>p_price := Number (p_price product)\<rparr>\<rparr>])
          else cartItemsLoop ps items totalAmount validCartItems)"

definition getCartItems :: "env \<Rightarrow> store \<Rightarrow> error + (cart_item list \<times> rat)" where
  "getCartItems e s =
     (case userId e of
        None \<Rightarrow> Inl NotAuthenticated
      | Some u \<Rightarrow>
          if fails e CartSelect then Inl CartLoadFailed
          else (let cartItems = filter (\<lambda>c. c_clerk_id c = u) (cart_items s)
                in if cartItems = [] then Inr ([], 0)
                   else Inr (cartItemsLoop (products s) cartItems 0 [])))"

section \<open>Order creation\<close>

text \<open>
  \<^verbatim>\<open>createOrder(orderData)\<close>. The argument of the model is the outcome of
  \<^verbatim>\<open>createOrderSchema.safeParse(orderData)\<close>: \<open>None\<close> when the form data is rejected,
  the parsed data otherwise (the schema's regular expressions are not part of the model).
  The loop over the cart rows returns at the first row that fails a check; the checks are
  in the order of the source: active, quantity against stock, stock zero.
  The total written to the order is the number computed here; the rounding of the
  \<^verbatim>\<open>DECIMAL(10,2)\<close> column is not modelled. When the insert of the order lines
  fails, the action deletes the order row by its id; it awaits the delete and does not look
  at its result, so a delete that fails leaves the row in the store and the action returns
  the same error.
\<close>

record create_order_input =
  shippingAddress :: shipping_address
  orderNote :: "string option"

record order_line =
  ol_product_id :: uuid
  ol_product_name :: string
  ol_quantity :: int
  ol_price :: rat

fun orderItemsLoop ::
  "cart_item list \<Rightarrow> rat \<Rightarrow> order_line list \<Rightarrow> error + (order_line list \<times> rat)" where
  "orderItemsLoop [] calculatedTotalAmount orderItems = Inr (orderItems, calculatedTotalAmount)"
| "orderItemsLoop (cartItem # rest) calculatedTotalAmount orderItems =
     (let product = ci_products cartItem in
      if \<not> p_is_active product then Inl (InactiveProduct (p_name product))
      else if ci_quantity cartItem > p_stock_quantity product
      then Inl (InsufficientStock (Some (p_name product)) (p_stock_quantity product)
                  (ci_quantity cartItem))
      else if p_stock_quantity product = 0 then Inl (OutOfStock (Some (p_name product)))
      else orderItemsLoop rest
             (js_add calculatedTotalAmount
                (js_mul (Number (p_price product)) (of_int (ci_quantity cartItem))))
             (orderItems @
                [\<lparr>ol_product_id = p_id product, ol_product_name = p_name product,
                  ol_quantity = ci_quantity cartItem, ol_price = Number (p_price product)\<rparr>]))"

text \<open>\<^verbatim>\<open>orderNote || null\<close>: an empty note is stored as \<^verbatim>\<open>null\<close>.\<close>

definition note_or_null :: "string option \<Rightarrow> string option" where
  "note_or_null n = (case n of None \<Rightarrow> None | Some t \<Rightarrow> if t = [] then None else Some t)"

definition createOrder ::
  "env \<Rightarrow> store \<Rightarrow> create_order_input option \<Rightarrow> store \<times> (error + uuid \<times> rat)" where
  "createOrder e s orderData =
     (case userId e of
        None \<Rightarrow> (s, Inl NotAuthenticated)
      | Some u \<Rightarrow>
     (case orderData of
        None \<Rightarrow> (s, Inl InvalidInput)
      | Some validatedData \<Rightarrow>
     (case getCartItems e s of
        Inl err \<Rightarrow> (s, Inl CartLoadFailed)
      | Inr (cartItems, cartTotalAmount) \<Rightarrow>
          if cartItems = [] then (s, Inl EmptyCart)
          else
     (case orderItemsLoop cartItems 0 [] of
        Inl err \<Rightarrow> (s, Inl err)
      | Inr (orderItems, calculatedTotalAmount) \<Rightarrow>
          if \<bar>js_sub calculatedTotalAmount cartTotalAmount\<bar> > epsilon
          then (s, Inl AmountMismatch)
          else if fails e OrderInsert then (s, Inl OrderSaveFailed)
          else
            (let ord = \<lparr>o_id = next_uuid s, o_clerk_id = u,
                        o_total_amount = calculatedTotalAmount, o_status = Pending,
                        o_shipping_address =
                          \<lparr>customerName = None,
                           address = address (shippingAddress validatedData),
                           postalCode = postalCode (shippingAddress validatedData),
                           addressDetail = addressDetail (shippingAddress validatedData),
                           phoneNumber = phoneNumber (shippingAddress validatedData)\<rparr>,
                        o_order_note = note_or_null (orderNote validatedData)\<rparr>;
                 s1 = s\<lparr>orders := orders s @ [ord], next_uuid := Suc (next_uuid s)\<rparr>
             in if fails e OrderItemsInsert
                then ((if fails e OrderDelete then s1
                       else s1\<lparr>orders := filter (\<lambda>r. o_id r \<noteq> o_id ord) (orders s1)\<rparr>),
                      Inl OrderItemsSaveFailed)
                else (s1\<lparr>order_items := order_items s1 @
                           map (\<lambda>item. \<lparr>oi_order_id = o_id ord,
                                         oi_product_id = ol_product_id item,
                                         oi_product_name = ol_product_name item,
                                         oi_quantity = ol_quantity item,
                                         oi_price = ol_price item\<rparr>) orderItems\<rparr>,
                      Inr (o_id ord, o_total_amount ord)))))))"

section \<open>Payment confirmation\<close>

text \<open>
  \<^verbatim>\<open>confirmPaymentWithToss(paymentKey, orderId, amount)\<close> posts to the gateway's confirm
  endpoint. It throws (\<open>Inl\<close>, with the message) when the secret key is not configured,
  when \<^verbatim>\<open>fetch\<close> throws and when the response is not \<^verbatim>\<open>ok\<close>; otherwise it returns
  the response body, of which the caller reads \<^verbatim>\<open>status\<close>. \<open>FetchResponse ok status
  message\<close> is a response with its \<^verbatim>\<open>ok\<close> flag, the \<^verbatim>\<open>status\<close> field of its body and
  the message the source throws for it when it is not \<^verbatim>\<open>ok\<close>.
\<close>

definition confirmPaymentWithToss :: "env \<Rightarrow> string \<Rightarrow> string \<Rightarrow> rat \<Rightarrow> string + string" where
  "confirmPaymentWithToss e paymentKey orderId amount =
     (case toss_secret_key e of
        None \<Rightarrow> Inl ''Toss Payments secret key is not set''
      | Some secretKey \<Rightarrow>
          if secretKey = [] then Inl ''Toss Payments secret key is not set''
          else (case fetch e of
                  FetchThrows message \<Rightarrow> Inl message
                | FetchResponse ok status message \<Rightarrow>
                    if \<not> ok then Inl message else Inr status))"

definition confirmPaymentSchema ::
  "string \<Rightarrow> string \<Rightarrow> rat \<Rightarrow> shipping_address option \<Rightarrow> string option \<Rightarrow> bool" where
  "confirmPaymentSchema paymentKey orderId amount shipping note \<longleftrightarrow>
     paymentKey \<noteq> [] \<and> orderId \<noteq> [] \<and> 0 < amount \<and>
     (case shipping of
        None \<Rightarrow> True
      | Some a \<Rightarrow>
          (case customerName a of None \<Rightarrow> False | Some n \<Rightarrow> n \<noteq> []) \<and>
          address a \<noteq> [] \<and> postalCode a \<noteq> [] \<and> phoneNumber a \<noteq> [])"

text \<open>
  Modelled from the spec: \<^verbatim>\<open>clearCart\<close> of \<^verbatim>\<open>actions/cart.ts\<close> is imported by the
  payment action but its body is not among the sources. Section 4.3, step 8: "clear the
  user's cart (all lines). Failure here is logged but non-fatal". It deletes every cart row
  of the caller, or fails and leaves the cart as it is.
\<close>

definition clearCart :: "env \<Rightarrow> store \<Rightarrow> store \<times> (error + unit)" where
  "clearCart e s =
     (case userId e of
        None \<Rightarrow> (s, Inl NotAuthenticated)
      | Some u \<Rightarrow>
          if fails e CartClear then (s, Inl CartClearFailed)
          else (s\<lparr>cart_items := filter (\<lambda>c. c_clerk_id c \<noteq> u) (cart_items s)\<rparr>, Inr ()))"

text \<open>
  Step 11 of the payment action, the loop over the order lines: read the product's stock,
  skip the line when the read fails or the stock would become negative, write the new
  stock, and go on whatever the write answers.
\<close>

fun decrementStock :: "env \<Rightarrow> order_item_row list \<Rightarrow> store \<Rightarrow> store" where
  "decrementStock e [] s = s"
| "decrementStock e (orderItem # rest) s =
     (case (if fails e (ProductSelect (oi_product_id orderItem)) then None
            else single (filter (\<lambda>p. p_id p = oi_product_id orderItem) (products s))) of
        None \<Rightarrow> decrementStock e rest s
      | Some product \<Rightarrow>
          (let newStock = p_stock_quantity product - oi_quantity orderItem
           in if newStock < 0 then decrementStock e rest s
              else if fails e (ProductUpdate (oi_product_id orderItem))
              then decrementStock e rest s
              else decrementStock e rest
                     (s\<lparr>products :=
                          map (\<lambda>p. if p_id p = oi_product_id orderItem
                                   then p\<lparr>p_stock_quantity := newStock\<rparr> else p)
                              (products s)\<rparr>)))"

text \<open>
  \<^verbatim>\<open>confirmPaymentAndCreateOrder(paymentKey, orderId, amount, shippingAddress, orderNote)\<close>.
  The result has three parts: the calls made to \<^verbatim>\<open>confirmPaymentWithToss\<close> (each with
  its arguments), the store afterwards, and the value returned. An exception thrown by
  \<^verbatim>\<open>confirmPaymentWithToss\<close> is caught by the action's \<^verbatim>\<open>catch\<close> and returned with
  the exception's message; store calls answer with a result or an error and do not throw.
  \<^verbatim>\<open>product?.name || "..."\<close> replaces an empty product name by a fixed Korean word,
  written \<open>''sangpum''\<close> here.
\<close>

type_synonym gateway_call = "string \<times> string \<times> rat"

definition orderItemsOf :: "uuid \<Rightarrow> cart_item list \<Rightarrow> order_item_row list" where
  "orderItemsOf order_id cartItems =
     map (\<lambda>item. \<lparr>oi_order_id = order_id, oi_product_id = ci_product_id item,
                   oi_product_name = (if p_name (ci_products item) = [] then ''sangpum''
                                      else p_name (ci_products item)),
                   oi_quantity = ci_quantity item,
                   oi_price = p_price (ci_products item)\<rparr>) cartItems"

definition confirmPaymentAndCreateOrder ::
  "env \<Rightarrow> store \<Rightarrow> string \<Rightarrow> string \<Rightarrow> rat \<Rightarrow> shipping_address option \<Rightarrow> string option
     \<Rightarrow> gateway_call list \<times> store \<times> (error + uuid \<times> string \<times> rat)" where
  "confirmPaymentAndCreateOrder e s paymentKey orderId amount shipping note =
     (case userId e of
        None \<Rightarrow> ([], s, Inl NotAuthenticated)
      | Some u \<Rightarrow>
          if \<not> confirmPaymentSchema paymentKey orderId amount shipping note
          then ([], s, Inl InvalidInput)
          else
     (case getCartItems e s of
        Inl err \<Rightarrow> ([], s, Inl EmptyCart)
      | Inr (cartItems, cartTotalAmount) \<Rightarrow>
          if cartItems = [] then ([], s, Inl EmptyCart)
          else if \<bar>js_sub amount cartTotalAmount\<bar> > epsilon then ([], s, Inl AmountMismatch)
          else if filter (\<lambda>item. p_stock_quantity (ci_products item) = 0) cartItems \<noteq> []
          then ([], s, Inl (OutOfStock None))
          else
     (case confirmPaymentWithToss e paymentKey orderId amount of
        Inl message \<Rightarrow> ([(paymentKey, orderId, amount)], s, Inl (InternalError message))
      | Inr status \<Rightarrow>
          if status \<noteq> ''DONE''
          then ([(paymentKey, orderId, amount)], s, Inl PaymentNotApproved)
          else if fails e OrderInsert
          then ([(paymentKey, orderId, amount)], s, Inl OrderSaveFailed)
          else
            (let ord = \<lparr>o_id = next_uuid s, o_clerk_id = u, o_total_amount = cartTotalAmount,
                        o_status = Confirmed,
                        o_shipping_address =
                          (case shipping of
                             Some a \<Rightarrow>
                               \<lparr>customerName = customerName a, address = address a,
                                postalCode = postalCode a,
                                addressDetail =
                                  Some (case addressDetail a of None \<Rightarrow> [] | Some d \<Rightarrow> d),
                                phoneNumber = phoneNumber a\<rparr>
                           | None \<Rightarrow>
                               \<lparr>customerName = Some u, address = [], postalCode = [],
                                addressDetail = Some [], phoneNumber = []\<rparr>),
                        o_order_note = note_or_null note\<rparr>;
                 s1 = s\<lparr>orders := orders s @ [ord], next_uuid := Suc (next_uuid s)\<rparr>;
                 orderItems = orderItemsOf (o_id ord) cartItems
             in if fails e OrderItemsInsert
                then ([(paymentKey, orderId, amount)],
                      (if fails e OrderDelete then s1
                       else s1\<lparr>orders := filter (\<lambda>r. o_id r \<noteq> o_id ord) (orders s1)\<rparr>),
                      Inl OrderItemsSaveFailed)
                else
                  (let s2 = s1\<lparr>order_items := order_items s1 @ orderItems\<rparr>;
                       s3 = decrementStock e orderItems s2;
                       s4 = fst (clearCart e s3)
                   in ([(paymentKey, orderId, amount)], s4,
                       Inr (o_id ord, paymentKey, cartTotalAmount)))))))"

section \<open>Adding to the cart\<close>

text \<open>
  \<^verbatim>\<open>addToCart(productId, quantity)\<close>. Product ids are UUID strings in the source; the
  check that the id is a non-empty string has no counterpart for the model's identifiers.
  \<^verbatim>\<open>quantity\<close> is an \<open>int\<close>, so of \<^verbatim>\<open>quantity < 1 || !Number.isInteger(quantity)\<close>
  the first test remains. The select of the existing cart row ignores its error: no row,
  several rows and a failed call all count as "no existing row". The insert of a new row
  is refused by the table (\<^verbatim>\<open>UNIQUE(clerk_id, product_id)\<close>) when the caller already has
  a row for the product. Ids are primary keys, so the update by id returns the one row read
  before, with its new quantity.
\<close>

definition addToCart :: "env \<Rightarrow> store \<Rightarrow> uuid \<Rightarrow> int \<Rightarrow> store \<times> (error + uuid \<times> int)" where
  "addToCart e s productId quantity =
     (case userId e of
        None \<Rightarrow> (s, Inl NotAuthenticated)
      | Some u \<Rightarrow>
          if quantity < 1 then (s, Inl InvalidQuantity)
          else if fails e CartProductSelect then (s, Inl ProductLoadFailed)
          else
     (case single (filter (\<lambda>p. p_id p = productId) (products s)) of
        None \<Rightarrow> (s, Inl ProductLoadFailed)
      | Some product \<Rightarrow>
          if \<not> p_is_active product then (s, Inl ProductNotOnSale)
          else
            (let existingCartItem =
                   (if fails e CartItemSelect then None
                    else single (filter (\<lambda>c. c_clerk_id c = u \<and> c_product_id c = productId)
                                        (cart_items s)));
                 totalQuantity = (case existingCartItem of
                                    Some row \<Rightarrow> c_quantity row + quantity
                                  | None \<Rightarrow> quantity)
             in if totalQuantity > p_stock_quantity product
                then (s, Inl (InsufficientStock None (p_stock_quantity product) totalQuantity))
                else
                  (case existingCartItem of
                     Some row \<Rightarrow>
                       (let newQuantity = c_quantity row + quantity
                        in if fails e CartItemUpdate then (s, Inl CartUpdateFailed)
                           else (s\<lparr>cart_items :=
                                     map (\<lambda>c. if c_id c = c_id row \<and> c_clerk_id c = u
                                              then c\<lparr>c_quantity := newQuantity\<rparr> else c)
                                         (cart_items s)\<rparr>,
                                 Inr (c_id row, newQuantity)))
                   | None \<Rightarrow>
                       if fails e CartItemInsert \<or>
                          (\<exists>c \<in> set (cart_items s). c_clerk_id c = u \<and> c_product_id c = productId)
                       then (s, Inl CartInsertFailed)
                       else (s\<lparr>cart_items :=
                                 \<lparr>c_id = next_uuid s, c_clerk_id = u, c_product_id = productId,
                                  c_quantity = quantity\<rparr> # cart_items s,
                               next_uuid := Suc (next_uuid s)\<rparr>,
                             Inr (next_uuid s, quantity))))))"

section \<open>The total of the specification\<close>

text \<open>
  The specification's total (section 4.1): "the exact sum of unit price times quantity over
  all lines (decimal arithmetic, no floating rounding drift)". \<open>exactCartTotal\<close> is that
  sum, in exact rational arithmetic, over the cart rows that \<open>getCartItems\<close> keeps (the
  rows whose product exists and is active), with the price as the table holds it.
  \<open>exactLineTotal\<close> is the same sum over joined cart items.
\<close>

fun exactCartTotal :: "product list \<Rightarrow> cart_row list \<Rightarrow> rat" where
  "exactCartTotal ps [] = 0"
| "exactCartTotal ps (item # items) =
     (case find (\<lambda>p. p_id p = c_product_id item) ps of
        None \<Rightarrow> exactCartTotal ps items
      | Some product \<Rightarrow>
          if p_is_active product
          then p_price product * of_int (c_quantity item) + exactCartTotal ps items
          else exactCartTotal ps items)"

definition exactLineTotal :: "cart_item list \<Rightarrow> rat" where
  "exactLineTotal cartItems =
     sum_list (map (\<lambda>item. p_price (ci_products item) * of_int (ci_quantity item)) cartItems)"

section \<open>Concrete stores and environments\<close>

text \<open>The scenarios of the specification (section 8), used to exercise the theorems.\<close>

definition shipping_a :: shipping_address where
  "shipping_a = \<lparr>customerName = Some ''Hong'', address = ''Seoul 1'', postalCode = ''12345'',
                  addressDetail = None, phoneNumber = ''01012345678''\<rparr>"

definition env_a :: env where
  "env_a = \<lparr>auth = Some ''user_a'', fails = (\<lambda>_. False), toss_secret_key = Some ''sk'',
             fetch = FetchResponse True ''DONE'' []\<rparr>"

definition store_orders :: store where
  "store_orders =
     \<lparr>products = [\<lparr>p_id = 1, p_name = ''P1'', p_price = 10000, p_stock_quantity = 5,
                     p_is_active = True\<rparr>],
      cart_items = [],
      orders = [\<lparr>o_id = 7, o_clerk_id = ''user_a'', o_total_amount = 20000, o_status = Pending,
                  o_shipping_address = shipping_a, o_order_note = None\<rparr>,
                \<lparr>o_id = 8, o_clerk_id = ''user_a'', o_total_amount = 10000, o_status = Confirmed,
                  o_shipping_address = shipping_a, o_order_note = None\<rparr>],
      order_items = [\<lparr>oi_order_id = 7, oi_product_id = 1, oi_product_name = ''P1'',
                       oi_quantity = 2, oi_price = 10000\<rparr>,
                     \<lparr>oi_order_id = 8, oi_product_id = 1, oi_product_name = ''P1'',
                       oi_quantity = 1, oi_price = 10000\<rparr>],
      next_uuid = 9\<rparr>"

definition mk_store :: "product list \<Rightarrow> cart_row list \<Rightarrow> store" where
  "mk_store ps cs = \<lparr>products = ps, cart_items = cs, orders = [], order_items = [], next_uuid = 20\<rparr>"

definition P1 :: product where
  "P1 = \<lparr>p_id = 1, p_name = ''P1'', p_price = 10000, p_stock_quantity = 5, p_is_active = True\<rparr>"

definition P2 :: product where
  "P2 = \<lparr>p_id = 2, p_name = ''P2'', p_price = 10000, p_stock_quantity = 5, p_is_active = True\<rparr>"

definition line :: "uuid \<Rightarrow> uuid \<Rightarrow> int \<Rightarrow> cart_row" where
  "line i p q = \<lparr>c_id = i, c_clerk_id = ''user_a'', c_product_id = p, c_quantity = q\<rparr>"

text \<open>Scenarios A and D: one product, price 10000, stock 5, quantity 2.\<close>

definition store_A :: store where
  "store_A = mk_store [P1] [line 11 1 2]"

text \<open>Scenario B: stock 1, quantity 2.\<close>

definition store_B :: store where
  "store_B = mk_store [P1\<lparr>p_stock_quantity := 1\<rparr>] [line 11 1 2]"

text \<open>A sold-out product in the cart.\<close>

definition store_sold_out :: store where
  "store_sold_out = mk_store [P1\<lparr>p_stock_quantity := 0\<rparr>] [line 11 1 1]"

text \<open>A deactivated product in the cart, beside an active one.\<close>

definition store_inactive :: store where
  "store_inactive = mk_store [P1\<lparr>p_is_active := False\<rparr>, P2] [line 11 1 1, line 12 2 2]"

text \<open>Prices with a fractional part: 0.10 and 0.20.\<close>

definition store_cents :: store where
  "store_cents = mk_store [P1\<lparr>p_price := 1 / 10\<rparr>, P2\<lparr>p_price := 2 / 10\<rparr>]
                          [line 12 2 1, line 11 1 1]"

text \<open>Environments: every store call of the tail fails; the order-line insert fails; the
  order-line insert and the delete of the order fail; the cart clear fails; the gateway answers with a status other than \<^verbatim>\<open>DONE\<close>.\<close>

definition env_tail_fails :: env where
  "env_tail_fails =
     env_a\<lparr>fails := (\<lambda>c. case c of ProductSelect _ \<Rightarrow> True | ProductUpdate _ \<Rightarrow> True
                               | CartClear \<Rightarrow> True | _ \<Rightarrow> False)\<rparr>"

definition env_items_fail :: env where
  "env_items_fail = env_a\<lparr>fails := (\<lambda>c. c = OrderItemsInsert)\<rparr>"

definition env_items_delete_fail :: env where
  "env_items_delete_fail = env_a\<lparr>fails := (\<lambda>c. c = OrderItemsInsert \<or> c = OrderDelete)\<rparr>"

definition env_clear_fails :: env where
  "env_clear_fails = env_a\<lparr>fails := (\<lambda>c. c = CartClear)\<rparr>"

definition env_declined :: env where
  "env_declined = env_a\<lparr>fetch := FetchResponse True ''ABORTED'' []\<rparr>"

definition order_input_a :: create_order_input where
  "order_input_a = \<lparr>shippingAddress = shipping_a, orderNote = None\<rparr>"

text \<open>Scenario A with earlier orders in the store, and with a second product.\<close>

definition store_A_hist :: store where
  "store_A_hist = store_A\<lparr>orders := orders store_orders, order_items := order_items store_orders\<rparr>"

definition store_two :: store where
  "store_two = mk_store [P1, P2] [line 11 1 2]"

text \<open>Whole prices: three of a product at 25000 and two of one at 10000.\<close>

definition store_whole :: store where
  "store_whole = mk_store [P1, P2\<lparr>p_price := 25000\<rparr>] [line 12 2 3, line 11 1 2]"

section \<open>Properties\<close>

subsection \<open>Store lookups\<close>

lemma single_Some_iff: "single xs = Some x \<longleftrightarrow> xs = [x]"
  by (cases xs rule: list.exhaust; cases "tl xs") (auto simp: single_def split: list.splits)

lemma filter_key_absent: "k x \<notin> k ` set ys \<Longrightarrow> filter (\<lambda>r. k r = k x) ys = []"
  by (induction ys) auto

lemma filter_distinct_key:
  assumes "distinct (map k xs)" and "x \<in> set xs"
  shows "filter (\<lambda>r. k r = k x) xs = [x]"
  using assms
proof (induction xs)
  case Nil
  then show ?case by simp
next
  case (Cons y ys)
  show ?case
  proof (cases "y = x")
    case True
    have "filter (\<lambda>r. k r = k x) ys = []"
      using Cons.prems(1) True by (simp add: filter_key_absent)
    with True show ?thesis by simp
  next
    case False
    with Cons.prems have "x \<in> set ys" and "k y \<noteq> k x" and "distinct (map k ys)"
      by auto
    with Cons.IH show ?thesis by simp
  qed
qed

lemma filter_key_and:
  assumes "distinct (map k xs)" and "x \<in> set xs" and "P x"
  shows "filter (\<lambda>r. k r = k x \<and> P r) xs = [x]"
proof -
  have "filter (\<lambda>r. k r = k x \<and> P r) xs = filter P (filter (\<lambda>r. k r = k x) xs)"
    by (simp add: conj_commute)
  also have "\<dots> = [x]"
    using filter_distinct_key [OF assms(1,2)] assms(3) by simp
  finally show ?thesis .
qed

lemma distinct_key_eq:
  "distinct (map k xs) \<Longrightarrow> a \<in> set xs \<Longrightarrow> b \<in> set xs \<Longrightarrow> k a = k b \<Longrightarrow> a = b"
  by (auto simp: distinct_map dest: inj_onD)

lemma single_filter_owner:
  assumes "distinct (map o_id os)"
  shows "single (filter (\<lambda>r. o_id r = oid \<and> o_clerk_id r = u) os) = Some x
     \<longleftrightarrow> x \<in> set os \<and> o_id x = oid \<and> o_clerk_id x = u"
proof
  assume "single (filter (\<lambda>r. o_id r = oid \<and> o_clerk_id r = u) os) = Some x"
  then have "filter (\<lambda>r. o_id r = oid \<and> o_clerk_id r = u) os = [x]"
    by (simp add: single_Some_iff)
  then have "x \<in> set (filter (\<lambda>r. o_id r = oid \<and> o_clerk_id r = u) os)"
    by simp
  then show "x \<in> set os \<and> o_id x = oid \<and> o_clerk_id x = u"
    by simp
next
  assume h: "x \<in> set os \<and> o_id x = oid \<and> o_clerk_id x = u"
  then have "filter (\<lambda>r. o_id r = o_id x \<and> o_clerk_id r = u) os = [x]"
    using filter_key_and [OF assms, of x "\<lambda>r. o_clerk_id r = u"] by simp
  with h show "single (filter (\<lambda>r. o_id r = oid \<and> o_clerk_id r = u) os) = Some x"
    by (simp add: single_def)
qed

lemma map_owner_cond:
  assumes "distinct (map o_id os)" and "x \<in> set os" and "o_clerk_id x = u"
  shows "map (\<lambda>r. if o_id r = o_id x \<and> o_clerk_id r = u then f r else r) os
       = map (\<lambda>r. if o_id r = o_id x then f r else r) os"
proof (rule map_cong [OF refl])
  fix r assume "r \<in> set os"
  then have "o_id r = o_id x \<Longrightarrow> r = x"
    using distinct_key_eq [OF assms(1) _ assms(2)] by blast
  with assms(3) show "(if o_id r = o_id x \<and> o_clerk_id r = u then f r else r)
      = (if o_id r = o_id x then f r else r)"
    by auto
qed

subsection \<open>Order cancellation\<close>

text \<open>
  Claim C9. For a signed-in caller and a store that answers the two calls of the action,
  \<open>cancelOrder\<close> succeeds exactly when an order with the given id exists, is owned by the
  caller and is pending; the resulting store differs from the old one only in that order's
  status, which is cancelled (products, cart and order lines are the same, and no gateway
  is involved); an order of the caller that is not pending is rejected with
  \<open>InvalidState\<close> and the store is unchanged. Order ids are primary keys.
\<close>

theorem cancelOrder_pending_only:
  assumes ids: "distinct (map o_id (orders s))"
    and user: "auth e = Some u" "u \<noteq> []"
    and ok: "\<not> fails e OrderSelect" "\<not> fails e OrderUpdate"
  shows "(snd (cancelOrder e s oid) = Inr ()
            \<longleftrightarrow> (\<exists>r \<in> set (orders s). o_id r = oid \<and> o_clerk_id r = u \<and> o_status r = Pending))
       \<and> (snd (cancelOrder e s oid) = Inr ()
            \<longrightarrow> fst (cancelOrder e s oid)
                = s\<lparr>orders := map (\<lambda>r. if o_id r = oid then r\<lparr>o_status := Cancelled\<rparr> else r)
                                (orders s)\<rparr>)
       \<and> (\<forall>r \<in> set (orders s). o_id r = oid \<and> o_clerk_id r = u \<and> o_status r \<noteq> Pending
            \<longrightarrow> cancelOrder e s oid = (s, Inl InvalidState))"
    (is "?A \<and> ?B \<and> ?C")
proof -
  let ?sel = "single (filter (\<lambda>r. o_id r = oid \<and> o_clerk_id r = u) (orders s))"
  have uid: "userId e = Some u"
    using user by (simp add: userId_def)
  show ?thesis
  proof (cases ?sel)
    case None
    then have no: "\<And>r. r \<in> set (orders s) \<Longrightarrow> o_id r = oid \<Longrightarrow> o_clerk_id r \<noteq> u"
      using single_filter_owner [OF ids, of oid u] by fastforce
    have res: "cancelOrder e s oid = (s, Inl OrderNotFound)"
      using None uid ok by (simp add: cancelOrder_def)
    have ?A using res no by auto
    moreover have ?B using res by simp
    moreover have ?C using no by blast
    ultimately show ?thesis by blast
  next
    case (Some x)
    then have x: "x \<in> set (orders s)" "o_id x = oid" "o_clerk_id x = u"
      using single_filter_owner [OF ids, of oid u x] by auto
    have uniq: "r = x" if "r \<in> set (orders s)" "o_id r = oid" for r
      using distinct_key_eq [OF ids that(1) x(1)] that(2) x(2) by simp
    show ?thesis
    proof (cases "o_status x = Pending")
      case True
      have res: "cancelOrder e s oid =
          (s\<lparr>orders := map (\<lambda>r. if o_id r = oid then r\<lparr>o_status := Cancelled\<rparr> else r)
                (orders s)\<rparr>, Inr ())"
        using Some uid ok True map_owner_cond [OF ids x(1) x(3), of "\<lambda>r. r\<lparr>o_status := Cancelled\<rparr>"] x(2)
        by (simp add: cancelOrder_def)
      have ?A using res True x by auto
      moreover have ?B using res by simp
      moreover have ?C using uniq True by blast
      ultimately show ?thesis by blast
    next
      case False
      have res: "cancelOrder e s oid = (s, Inl InvalidState)"
        using Some uid ok False by (simp add: cancelOrder_def)
      have ?A using res False uniq by auto
      moreover have ?B using res by simp
      moreover have ?C using res by simp
      ultimately show ?thesis by blast
    qed
  qed
qed

theorem cancelOrder_pending_only_witness:
  "distinct (map o_id (orders store_orders)) \<and> auth env_a = Some ''user_a''
   \<and> \<not> fails env_a OrderSelect \<and> \<not> fails env_a OrderUpdate
   \<and> snd (cancelOrder env_a store_orders 7) = Inr ()
   \<and> map o_status (orders (fst (cancelOrder env_a store_orders 7))) = [Cancelled, Confirmed]
   \<and> products (fst (cancelOrder env_a store_orders 7)) = products store_orders
   \<and> cancelOrder env_a store_orders 8 = (store_orders, Inl InvalidState)"
proof -
  have h1: "distinct (map o_id (orders store_orders))"
    by (simp add: store_orders_def)
  have h2: "auth env_a = Some ''user_a''" and h3: "''user_a'' \<noteq> []"
    and h4: "\<not> fails env_a OrderSelect" and h5: "\<not> fails env_a OrderUpdate"
    by (simp_all add: env_a_def)
  note t7 = cancelOrder_pending_only [OF h1 h2 h3 h4 h5, of 7]
  note t8 = cancelOrder_pending_only [OF h1 h2 h3 h4 h5, of 8]
  have pending: "\<exists>r \<in> set (orders store_orders). o_id r = 7 \<and> o_clerk_id r = ''user_a'' \<and> o_status r = Pending"
    by (simp add: store_orders_def)
  have ok: "snd (cancelOrder env_a store_orders 7) = Inr ()"
    using t7 pending by blast
  then have st: "fst (cancelOrder env_a store_orders 7)
      = store_orders\<lparr>orders := map (\<lambda>r. if o_id r = 7 then r\<lparr>o_status := Cancelled\<rparr> else r)
                                (orders store_orders)\<rparr>"
    using t7 by blast
  have c8: "cancelOrder env_a store_orders 8 = (store_orders, Inl InvalidState)"
    using t8 by (simp add: store_orders_def)
  have sts: "map o_status (orders (fst (cancelOrder env_a store_orders 7))) = [Cancelled, Confirmed]"
    unfolding st by (simp add: store_orders_def)
  have prods: "products (fst (cancelOrder env_a store_orders 7)) = products store_orders"
    unfolding st by simp
  show ?thesis
    using h1 h2 h4 h5 ok c8 sts prods by blast
qed

subsection \<open>What the tail of the payment action leaves alone\<close>

lemma decrementStock_keeps:
  "orders (decrementStock e items s) = orders s
   \<and> order_items (decrementStock e items s) = order_items s
   \<and> cart_items (decrementStock e items s) = cart_items s
   \<and> next_uuid (decrementStock e items s) = next_uuid s"
  by (induction e items s rule: decrementStock.induct)
     (simp_all add: Let_def split: option.splits)

lemma clearCart_keeps:
  "orders (fst (clearCart e s)) = orders s
   \<and> order_items (fst (clearCart e s)) = order_items s
   \<and> products (fst (clearCart e s)) = products s
   \<and> next_uuid (fst (clearCart e s)) = next_uuid s"
  by (simp add: clearCart_def split: option.splits)

lemma decrementStock_nonneg:
  "\<forall>p \<in> set (products s). 0 \<le> p_stock_quantity p \<Longrightarrow>
     \<forall>p \<in> set (products (decrementStock e items s)). 0 \<le> p_stock_quantity p"
proof (induction items arbitrary: s)
  case Nil
  then show ?case by simp
next
  case (Cons orderItem rest)
  let ?pid = "oi_product_id orderItem"
  let ?sel = "if fails e (ProductSelect ?pid) then None
              else single (filter (\<lambda>p. p_id p = ?pid) (products s))"
  have skip: "\<forall>p \<in> set (products (decrementStock e rest s)). 0 \<le> p_stock_quantity p"
    using Cons.IH [OF Cons.prems] .
  show ?case
  proof (cases ?sel)
    case None
    then have "decrementStock e (orderItem # rest) s = decrementStock e rest s"
      by simp
    with skip show ?thesis by simp
  next
    case (Some product)
    let ?new = "p_stock_quantity product - oi_quantity orderItem"
    let ?s' = "s\<lparr>products := map (\<lambda>p. if p_id p = ?pid
                                   then p\<lparr>p_stock_quantity := ?new\<rparr> else p) (products s)\<rparr>"
    show ?thesis
    proof (cases "?new < 0 \<or> fails e (ProductUpdate ?pid)")
      case True
      then have "decrementStock e (orderItem # rest) s = decrementStock e rest s"
        using Some by (auto simp: Let_def)
      with skip show ?thesis by simp
    next
      case False
      then have eq: "decrementStock e (orderItem # rest) s = decrementStock e rest ?s'"
        using Some by (simp add: Let_def)
      have "\<forall>p \<in> set (products ?s'). 0 \<le> p_stock_quantity p"
        using Cons.prems False by auto
      from Cons.IH [OF this] show ?thesis
        unfolding eq .
    qed
  qed
qed

lemma filter_fresh:
  "\<forall>r \<in> set xs. k r < (n::nat) \<Longrightarrow> filter (\<lambda>r. k r \<noteq> n) xs = xs"
  by (induction xs) auto

lemma filter_not_then:
  "filter P (filter (\<lambda>x. \<not> P x) xs) = []"
  by (induction xs) auto

lemma orderItemsLoop_errors:
  "orderItemsLoop cartItems t acc = Inl err \<Longrightarrow>
     (\<exists>n. err = InactiveProduct n) \<or> (\<exists>n a b. err = InsufficientStock (Some n) a b)
     \<or> (\<exists>n. err = OutOfStock (Some n))"
  by (induction cartItems t acc rule: orderItemsLoop.induct)
     (auto simp: Let_def split: if_splits)

lemma orderItemsLoop_never_sold_out:
  assumes "\<forall>item \<in> set cartItems. 1 \<le> ci_quantity item"
  shows "orderItemsLoop cartItems t acc \<noteq> Inl (OutOfStock n)"
  using assms
  by (induction cartItems t acc rule: orderItemsLoop.induct)
     (auto simp: Let_def split: if_splits)

lemma cartItemsLoop_active:
  assumes "\<forall>item \<in> set acc. p_is_active (ci_products item)"
  shows "\<forall>item \<in> set (fst (cartItemsLoop ps rows t acc)). p_is_active (ci_products item)"
  using assms
  by (induction ps rows t acc rule: cartItemsLoop.induct)
     (auto split: option.splits)

lemma getCartItems_active:
  "getCartItems e s = Inr (cartItems, cartTotal) \<Longrightarrow>
     \<forall>item \<in> set cartItems. p_is_active (ci_products item)"
  using cartItemsLoop_active [of "[]" "products s" _ 0]
  by (auto simp: getCartItems_def Let_def split: option.splits if_splits)
     (metis fst_conv empty_iff list.set(1))

lemma single_member: "single xs = Some x \<Longrightarrow> x \<in> set xs"
  by (simp add: single_Some_iff)

lemma single_filter_holds: "single (filter P xs) = Some x \<Longrightarrow> x \<in> set xs \<and> P x"
  using single_member [of "filter P xs" x] by simp

lemma single_filter_none: "\<forall>x \<in> set xs. \<not> P x \<Longrightarrow> single (filter P xs) = None"
  by (simp add: single_def filter_False)

subsection \<open>The gateway call of the payment action\<close>

text \<open>
  Claim C1 fails on the code. The cart of scenario B (one row, quantity 2, stock 1) fails
  the cart validation: \<open>createOrder\<close> rejects it with the insufficient-stock error (stock
  1, quantity 2) and writes nothing. The payment action compares no quantity with the stock
  before the gateway; for the same cart and the matching amount it calls
  \<open>confirmPaymentWithToss\<close> and returns success.
\<close>

theorem confirm_calls_gateway_for_insufficient_stock:
  "createOrder env_a store_B (Some order_input_a)
     = (store_B, Inl (InsufficientStock (Some ''P1'') 1 2))
   \<and> fst (confirmPaymentAndCreateOrder env_a store_B ''pk'' ''o1'' 20000 None None)
     = [(''pk'', ''o1'', 20000)]
   \<and> snd (snd (confirmPaymentAndCreateOrder env_a store_B ''pk'' ''o1'' 20000 None None))
     = Inr (20, ''pk'', 20000)"
  by code_simp

text \<open>
  What holds of the gateway call. The action calls \<open>confirmPaymentWithToss\<close> at most
  once, with the arguments it was given, and not at all when the caller is not signed in,
  the arguments fail the schema, the cart query fails or yields no row, the amount differs
  from the cart total by more than 0.01, or a row's product has stock zero. An invocation
  that makes no call leaves the store as it was and returns an error. When the gateway
  answers with a status other than \<^verbatim>\<open>DONE\<close>, the store is as it was and an invocation
  that reached the gateway returns \<open>PaymentNotApproved\<close>.
\<close>

lemma confirm_gateway_guard:
  "(fst (confirmPaymentAndCreateOrder e s pk oid amount shipping note) = []
      \<or> fst (confirmPaymentAndCreateOrder e s pk oid amount shipping note) = [(pk, oid, amount)])
   \<and> (userId e = None \<or> \<not> confirmPaymentSchema pk oid amount shipping note
        \<or> (case getCartItems e s of
              Inl err \<Rightarrow> True
            | Inr (cartItems, cartTotal) \<Rightarrow>
                cartItems = [] \<or> \<bar>js_sub amount cartTotal\<bar> > epsilon
                \<or> (\<exists>item \<in> set cartItems. p_stock_quantity (ci_products item) = 0))
       \<longrightarrow> fst (confirmPaymentAndCreateOrder e s pk oid amount shipping note) = [])
   \<and> (fst (confirmPaymentAndCreateOrder e s pk oid amount shipping note) = []
       \<longrightarrow> fst (snd (confirmPaymentAndCreateOrder e s pk oid amount shipping note)) = s
         \<and> (\<exists>err. snd (snd (confirmPaymentAndCreateOrder e s pk oid amount shipping note)) = Inl err))
   \<and> (confirmPaymentWithToss e pk oid amount = Inr status \<and> status \<noteq> ''DONE''
       \<longrightarrow> fst (snd (confirmPaymentAndCreateOrder e s pk oid amount shipping note)) = s
         \<and> (fst (confirmPaymentAndCreateOrder e s pk oid amount shipping note) \<noteq> []
              \<longrightarrow> snd (snd (confirmPaymentAndCreateOrder e s pk oid amount shipping note))
                    = Inl PaymentNotApproved))"
  (is "?O \<and> ?A \<and> ?B \<and> ?C")
proof -
  have O: ?O
    by (simp add: confirmPaymentAndCreateOrder_def Let_def
             split: option.splits sum.splits prod.splits)
  have A: ?A
    by (auto simp: confirmPaymentAndCreateOrder_def Let_def filter_empty_conv
             split: option.splits sum.splits prod.splits)
  have B: ?B
    by (simp add: confirmPaymentAndCreateOrder_def Let_def
             split: option.splits sum.splits prod.splits)
  have C: ?C
    by (simp add: confirmPaymentAndCreateOrder_def Let_def
             split: option.splits sum.splits prod.splits)
  from O A B C show ?thesis by blast
qed

subsection \<open>After approval\<close>

text \<open>
  Claim C2. When the invocation reached the gateway, the gateway answered \<^verbatim>\<open>DONE\<close> and the
  two inserts succeeded, the action returns success with the new order's id, and the store
  afterwards holds an order with that id, owned by the caller, with status confirmed.
  Nothing is assumed about the stock reads, the stock writes and the cart clear: each of
  them may fail.
\<close>

theorem confirm_approved_order_exists:
  assumes called: "fst (confirmPaymentAndCreateOrder e s pk oid amount shipping note) \<noteq> []"
    and approved: "confirmPaymentWithToss e pk oid amount = Inr ''DONE''"
    and ins: "\<not> fails e OrderInsert" "\<not> fails e OrderItemsInsert"
  shows "\<exists>u cartTotal.
           userId e = Some u
         \<and> snd (snd (confirmPaymentAndCreateOrder e s pk oid amount shipping note))
             = Inr (next_uuid s, pk, cartTotal)
         \<and> (\<exists>ord \<in> set (orders (fst (snd (confirmPaymentAndCreateOrder e s pk oid amount shipping note)))).
               o_id ord = next_uuid s \<and> o_clerk_id ord = u \<and> o_status ord = Confirmed
             \<and> o_total_amount ord = cartTotal)"
  using assms
  by (auto simp: confirmPaymentAndCreateOrder_def Let_def decrementStock_keeps clearCart_keeps
           split: option.splits sum.splits prod.splits if_splits)

theorem confirm_approved_order_exists_witness:
  "fails env_tail_fails (ProductSelect 1) \<and> fails env_tail_fails (ProductUpdate 1)
   \<and> fails env_tail_fails CartClear
   \<and> confirmPaymentAndCreateOrder env_tail_fails store_A ''pk'' ''o1'' 20000 None None
     = ([(''pk'', ''o1'', 20000)],
        store_A\<lparr>orders :=
                   [\<lparr>o_id = 20, o_clerk_id = ''user_a'', o_total_amount = 20000,
                     o_status = Confirmed,
                     o_shipping_address =
                       \<lparr>customerName = Some ''user_a'', address = [], postalCode = [],
                        addressDetail = Some [], phoneNumber = []\<rparr>,
                     o_order_note = None\<rparr>],
                 order_items :=
                   [\<lparr>oi_order_id = 20, oi_product_id = 1, oi_product_name = ''P1'',
                     oi_quantity = 2, oi_price = 10000\<rparr>],
                 next_uuid := 21\<rparr>,
        Inr (20, ''pk'', 20000))
   \<and> (\<exists>u cartTotal.
           userId env_tail_fails = Some u
         \<and> snd (snd (confirmPaymentAndCreateOrder env_tail_fails store_A ''pk'' ''o1'' 20000 None None))
             = Inr (next_uuid store_A, ''pk'', cartTotal)
         \<and> (\<exists>ord \<in> set (orders (fst (snd (confirmPaymentAndCreateOrder env_tail_fails store_A
                                               ''pk'' ''o1'' 20000 None None)))).
               o_id ord = next_uuid store_A \<and> o_clerk_id ord = u \<and> o_status ord = Confirmed
             \<and> o_total_amount ord = cartTotal))"
proof -
  have called: "fst (confirmPaymentAndCreateOrder env_tail_fails store_A ''pk'' ''o1'' 20000 None None)
                  \<noteq> []"
    by code_simp
  have approved: "confirmPaymentWithToss env_tail_fails ''pk'' ''o1'' 20000 = Inr ''DONE''"
    by code_simp
  have ins: "\<not> fails env_tail_fails OrderInsert" "\<not> fails env_tail_fails OrderItemsInsert"
    by code_simp+
  have tail: "fails env_tail_fails (ProductSelect 1) \<and> fails env_tail_fails (ProductUpdate 1)
              \<and> fails env_tail_fails CartClear"
    by code_simp
  have val: "confirmPaymentAndCreateOrder env_tail_fails store_A ''pk'' ''o1'' 20000 None None
     = ([(''pk'', ''o1'', 20000)],
        store_A\<lparr>orders :=
                   [\<lparr>o_id = 20, o_clerk_id = ''user_a'', o_total_amount = 20000,
                     o_status = Confirmed,
                     o_shipping_address =
                       \<lparr>customerName = Some ''user_a'', address = [], postalCode = [],
                        addressDetail = Some [], phoneNumber = []\<rparr>,
                     o_order_note = None\<rparr>],
                 order_items :=
                   [\<lparr>oi_order_id = 20, oi_product_id = 1, oi_product_name = ''P1'',
                     oi_quantity = 2, oi_price = 10000\<rparr>],
                 next_uuid := 21\<rparr>,
        Inr (20, ''pk'', 20000))"
    by code_simp
  from confirm_approved_order_exists [OF called approved ins] tail val
  show ?thesis by blast
qed

subsection \<open>Compensation in order creation\<close>

text \<open>
  Claim C3, as the code has it. When the insert of the order lines fails, \<open>createOrder\<close>
  returns an error and writes no order line. When the error is the one of the order-line
  insert, an id was drawn: the order row had been inserted, and the action issued the
  delete of the row with that id. When the delete succeeds, the orders in the store are
  those from before the invocation and no order carries the id drawn for this attempt.
  Ids already in use are below the counter.
\<close>

theorem createOrder_compensation:
  assumes fail: "fails e OrderItemsInsert"
    and fresh: "\<forall>r \<in> set (orders s). o_id r < next_uuid s"
  shows "(\<exists>err. snd (createOrder e s orderData) = Inl err)
       \<and> order_items (fst (createOrder e s orderData)) = order_items s
       \<and> (snd (createOrder e s orderData) = Inl OrderItemsSaveFailed
            \<longrightarrow> next_uuid (fst (createOrder e s orderData)) = Suc (next_uuid s))
       \<and> (\<not> fails e OrderDelete
            \<longrightarrow> orders (fst (createOrder e s orderData)) = orders s
              \<and> (\<forall>r \<in> set (orders (fst (createOrder e s orderData))). o_id r \<noteq> next_uuid s))"
  using assms
  by (auto simp: createOrder_def Let_def filter_fresh
           split: option.splits sum.splits prod.splits dest: orderItemsLoop_errors)

theorem createOrder_compensation_witness:
  "fails env_items_fail OrderItemsInsert \<and> \<not> fails env_items_fail OrderDelete
   \<and> map o_id (orders store_A_hist) = [7, 8] \<and> next_uuid store_A_hist = 20
   \<and> createOrder env_items_fail store_A_hist (Some order_input_a)
       = (store_A_hist\<lparr>next_uuid := 21\<rparr>, Inl OrderItemsSaveFailed)
   \<and> orders (fst (createOrder env_items_fail store_A_hist (Some order_input_a)))
       = orders store_A_hist
   \<and> order_items (fst (createOrder env_items_fail store_A_hist (Some order_input_a)))
       = order_items store_A_hist"
proof -
  have fail: "fails env_items_fail OrderItemsInsert"
    by code_simp
  have del: "\<not> fails env_items_fail OrderDelete"
    by code_simp
  have fresh: "\<forall>r \<in> set (orders store_A_hist). o_id r < next_uuid store_A_hist"
    by code_simp
  have ids: "map o_id (orders store_A_hist) = [7, 8]" "next_uuid store_A_hist = 20"
    by code_simp+
  have val: "createOrder env_items_fail store_A_hist (Some order_input_a)
       = (store_A_hist\<lparr>next_uuid := 21\<rparr>, Inl OrderItemsSaveFailed)"
    by code_simp
  from createOrder_compensation [OF fail fresh, of "Some order_input_a"] fail del ids val
  show ?thesis by blast
qed

text \<open>
  Claim C3 as stated fails: when the order-line insert fails and the delete fails too, the
  action returns the error of the order-line insert and the order row of the attempt (id
  20, pending) stays in the store, with no order line.
\<close>

theorem createOrder_failed_delete_leaves_order:
  "snd (createOrder env_items_delete_fail store_A_hist (Some order_input_a))
     = Inl OrderItemsSaveFailed
   \<and> map (\<lambda>r. (o_id r, o_status r))
        (orders (fst (createOrder env_items_delete_fail store_A_hist (Some order_input_a))))
     = [(7, Pending), (8, Confirmed), (20, Pending)]
   \<and> filter (\<lambda>l. oi_order_id l = 20)
        (order_items (fst (createOrder env_items_delete_fail store_A_hist (Some order_input_a))))
     = []"
  by code_simp

subsection \<open>Repeated confirmation\<close>

text \<open>
  Claim C4, as the code has it. When an invocation returned success and its cart clear
  succeeded, the next invocation of the same caller with the same arguments (the same
  payment key), in the store the first one left, is rejected with \<open>EmptyCart\<close>, does
  not call the gateway and leaves the store as it is.
\<close>

theorem confirm_second_invocation_after_cart_clear:
  assumes first: "snd (snd (confirmPaymentAndCreateOrder e1 s pk oid amount shipping note)) = Inr x"
    and cleared: "\<not> fails e1 CartClear"
    and same_user: "userId e2 = userId e1"
  shows "confirmPaymentAndCreateOrder e2
           (fst (snd (confirmPaymentAndCreateOrder e1 s pk oid amount shipping note)))
           pk oid amount shipping note
         = ([], fst (snd (confirmPaymentAndCreateOrder e1 s pk oid amount shipping note)),
            Inl EmptyCart)"
proof -
  let ?s1 = "fst (snd (confirmPaymentAndCreateOrder e1 s pk oid amount shipping note))"
  from first obtain u where u: "userId e1 = Some u"
    and schema: "confirmPaymentSchema pk oid amount shipping note"
    by (auto simp: confirmPaymentAndCreateOrder_def split: option.splits if_splits)
  have cart: "cart_items ?s1 = filter (\<lambda>c. c_clerk_id c \<noteq> u) (cart_items s)"
    using first u cleared
    by (auto simp: confirmPaymentAndCreateOrder_def Let_def clearCart_def decrementStock_keeps
             split: option.splits sum.splits prod.splits if_splits)
  have "filter (\<lambda>c. c_clerk_id c = u) (cart_items ?s1) = []"
    unfolding cart by (rule filter_not_then)
  then have "getCartItems e2 ?s1 = Inl CartLoadFailed \<or> getCartItems e2 ?s1 = Inr ([], 0)"
    using u same_user by (simp add: getCartItems_def)
  then show ?thesis
    using u same_user schema by (auto simp: confirmPaymentAndCreateOrder_def)
qed

theorem confirm_second_invocation_after_cart_clear_witness:
  "snd (snd (confirmPaymentAndCreateOrder env_a store_A ''pk'' ''o1'' 20000 None None))
     = Inr (20, ''pk'', 20000)
   \<and> \<not> fails env_a CartClear
   \<and> userId env_declined = userId env_a
   \<and> confirmPaymentAndCreateOrder env_declined
        (fst (snd (confirmPaymentAndCreateOrder env_a store_A ''pk'' ''o1'' 20000 None None)))
        ''pk'' ''o1'' 20000 None None
     = ([], fst (snd (confirmPaymentAndCreateOrder env_a store_A ''pk'' ''o1'' 20000 None None)),
        Inl EmptyCart)
   \<and> map o_id (orders (fst (snd (confirmPaymentAndCreateOrder env_a store_A ''pk'' ''o1'' 20000
                                     None None)))) = [20]"
proof -
  have first: "snd (snd (confirmPaymentAndCreateOrder env_a store_A ''pk'' ''o1'' 20000 None None))
     = Inr (20, ''pk'', 20000)"
    by code_simp
  have cleared: "\<not> fails env_a CartClear"
    by code_simp
  have same: "userId env_declined = userId env_a"
    by code_simp
  have one: "map o_id (orders (fst (snd (confirmPaymentAndCreateOrder env_a store_A ''pk'' ''o1''
                                          20000 None None)))) = [20]"
    by code_simp
  from confirm_second_invocation_after_cart_clear [OF first cleared same] first cleared same one
  show ?thesis by blast
qed

text \<open>
  Claim C4 as stated fails: when the cart clear of the first invocation fails, the second
  invocation with the same payment key calls the gateway again and, the gateway answering
  \<^verbatim>\<open>DONE\<close> again, inserts a second order.
\<close>

theorem confirm_not_idempotent:
  "fst (confirmPaymentAndCreateOrder env_clear_fails store_A ''pk'' ''o1'' 20000 None None)
     = [(''pk'', ''o1'', 20000)]
   \<and> fst (confirmPaymentAndCreateOrder env_clear_fails
            (fst (snd (confirmPaymentAndCreateOrder env_clear_fails store_A ''pk'' ''o1'' 20000
                         None None)))
            ''pk'' ''o1'' 20000 None None)
     = [(''pk'', ''o1'', 20000)]
   \<and> map (\<lambda>r. (o_id r, o_status r))
        (orders (fst (snd (confirmPaymentAndCreateOrder env_clear_fails
            (fst (snd (confirmPaymentAndCreateOrder env_clear_fails store_A ''pk'' ''o1'' 20000
                         None None)))
            ''pk'' ''o1'' 20000 None None))))
     = [(20, Confirmed), (21, Confirmed)]"
  by code_simp

subsection \<open>Sold-out products in order creation\<close>

text \<open>
  Claim C5 fails on the code. The loop of \<open>createOrder\<close> compares the quantity with the
  stock before it tests the stock for zero, so for a cart row with quantity 1 and stock 0
  it returns the insufficient-stock error (stock 0, quantity 1) and not the sold-out error;
  the payment action returns the sold-out error for the same cart. The store is unchanged.
\<close>

theorem createOrder_sold_out_reported_as_insufficient:
  "createOrder env_a store_sold_out (Some order_input_a)
     = (store_sold_out, Inl (InsufficientStock (Some ''P1'') 0 1))
   \<and> snd (snd (confirmPaymentAndCreateOrder env_a store_sold_out ''pk'' ''o1'' 10000 None None))
     = Inl (OutOfStock None)"
  by code_simp

subsection \<open>Rejections of the payment action before the gateway\<close>

text \<open>
  Claim C6, as the code has it. The cart query keeps only rows of active products, and the
  payment action never returns \<open>InactiveProduct\<close>. For a signed-in caller and arguments
  that pass the schema: a cart query that fails or yields no row is rejected with
  \<open>EmptyCart\<close>; a cart with a row whose product has stock zero is rejected with
  \<open>OutOfStock\<close> once the amount has matched; in both cases the gateway is not called and
  the store is unchanged.
\<close>

theorem confirm_rejections_before_gateway:
  "(getCartItems e s = Inr (cartItems, cartTotal) \<longrightarrow>
       (\<forall>item \<in> set cartItems. p_is_active (ci_products item)))
   \<and> snd (snd (confirmPaymentAndCreateOrder e s pk oid amount shipping note))
        \<noteq> Inl (InactiveProduct n)
   \<and> (userId e = Some u \<and> confirmPaymentSchema pk oid amount shipping note
        \<and> (getCartItems e s = Inl err \<or> getCartItems e s = Inr ([], cartTotal))
       \<longrightarrow> confirmPaymentAndCreateOrder e s pk oid amount shipping note = ([], s, Inl EmptyCart))
   \<and> (userId e = Some u \<and> confirmPaymentSchema pk oid amount shipping note
        \<and> getCartItems e s = Inr (cartItems, cartTotal) \<and> cartItems \<noteq> []
        \<and> \<not> \<bar>js_sub amount cartTotal\<bar> > epsilon
        \<and> (\<exists>item \<in> set cartItems. p_stock_quantity (ci_products item) = 0)
       \<longrightarrow> confirmPaymentAndCreateOrder e s pk oid amount shipping note
             = ([], s, Inl (OutOfStock None)))"
  (is "?A \<and> ?B \<and> ?C \<and> ?D")
proof -
  have A: ?A using getCartItems_active by blast
  have B: ?B
    by (simp add: confirmPaymentAndCreateOrder_def Let_def
             split: option.splits sum.splits prod.splits)
  have C: ?C
    by (auto simp: confirmPaymentAndCreateOrder_def)
  have D: ?D
    by (auto simp: confirmPaymentAndCreateOrder_def filter_empty_conv)
  from A B C D show ?thesis by blast
qed

theorem confirm_rejections_before_gateway_witness:
  "getCartItems env_a store_inactive
     = Inr ([\<lparr>ci_id = 12, ci_clerk_id = ''user_a'', ci_product_id = 2, ci_quantity = 2,
              ci_products = P2\<rparr>], 20000)
   \<and> p_is_active P2
   \<and> confirmPaymentAndCreateOrder env_a store_orders ''pk'' ''o1'' 20000 None None
     = ([], store_orders, Inl EmptyCart)
   \<and> confirmPaymentAndCreateOrder env_a store_sold_out ''pk'' ''o1'' 10000 None None
     = ([], store_sold_out, Inl (OutOfStock None))"
proof -
  let ?zero = "\<lparr>ci_id = 11, ci_clerk_id = ''user_a'', ci_product_id = 1, ci_quantity = 1,
                ci_products = P1\<lparr>p_stock_quantity := 0\<rparr>\<rparr>"
  let ?two = "\<lparr>ci_id = 12, ci_clerk_id = ''user_a'', ci_product_id = 2, ci_quantity = 2,
               ci_products = P2\<rparr>"
  have user: "userId env_a = Some ''user_a''"
    by code_simp
  have schema2: "confirmPaymentSchema ''pk'' ''o1'' 20000 None None"
    and schema1: "confirmPaymentSchema ''pk'' ''o1'' 10000 None None"
    by code_simp+
  have inactive: "getCartItems env_a store_inactive = Inr ([?two], 20000)"
    by code_simp
  have empty: "getCartItems env_a store_orders = Inr ([], 0)"
    by code_simp
  have sold: "getCartItems env_a store_sold_out = Inr ([?zero], 10000)"
    by code_simp
  have match: "\<not> \<bar>js_sub 10000 10000\<bar> > epsilon"
    by code_simp
  have zero: "\<exists>item \<in> set [?zero]. p_stock_quantity (ci_products item) = 0"
    by simp
  note a = confirm_rejections_before_gateway
             [of env_a store_inactive "[?two]" 20000 "''pk''" "''o1''" 20000 None None]
  note c = confirm_rejections_before_gateway
             [of env_a store_orders "[]" 0 "''pk''" "''o1''" 20000 None None _ "''user_a''"]
  note d = confirm_rejections_before_gateway
             [of env_a store_sold_out "[?zero]" 10000 "''pk''" "''o1''" 10000 None None _
                 "''user_a''"]
  have 1: "p_is_active P2"
    using a inactive by simp
  have 2: "confirmPaymentAndCreateOrder env_a store_orders ''pk'' ''o1'' 20000 None None
     = ([], store_orders, Inl EmptyCart)"
    using c user schema2 empty by blast
  have 3: "confirmPaymentAndCreateOrder env_a store_sold_out ''pk'' ''o1'' 10000 None None
     = ([], store_sold_out, Inl (OutOfStock None))"
    using d user schema1 sold match zero by blast
  from inactive 1 2 3 show ?thesis by blast
qed

text \<open>
  Claim C6 as stated fails: a cart with a row of a deactivated product and a row of an
  active one is not rejected; the gateway is called for the active row's total and the
  action returns success.
\<close>

theorem confirm_inactive_line_not_rejected:
  "fst (confirmPaymentAndCreateOrder env_a store_inactive ''pk'' ''o1'' 20000 None None)
     = [(''pk'', ''o1'', 20000)]
   \<and> snd (snd (confirmPaymentAndCreateOrder env_a store_inactive ''pk'' ''o1'' 20000 None None))
     = Inr (20, ''pk'', 20000)"
  by code_simp

subsection \<open>The stock decrement\<close>

text \<open>
  Claim C7, as the code has it. The loop handles the order lines one after the other. For
  a line whose product row is found: when the read succeeds, the stock is at least the
  quantity and the write succeeds, the stock of that product becomes the old stock minus
  the quantity; otherwise the products are as before (the stock is not set to zero). A line
  whose product row is not found changes nothing. Stocks that are non-negative before the
  loop are non-negative after it.
\<close>

theorem decrementStock_line:
  "decrementStock e (orderItem # rest) s = decrementStock e rest (decrementStock e [orderItem] s)
   \<and> (single (filter (\<lambda>p. p_id p = oi_product_id orderItem) (products s)) = Some product
       \<longrightarrow> products (decrementStock e [orderItem] s)
            = (if \<not> fails e (ProductSelect (oi_product_id orderItem))
                  \<and> oi_quantity orderItem \<le> p_stock_quantity product
                  \<and> \<not> fails e (ProductUpdate (oi_product_id orderItem))
               then map (\<lambda>p. if p_id p = oi_product_id orderItem
                              then p\<lparr>p_stock_quantity :=
                                       p_stock_quantity product - oi_quantity orderItem\<rparr>
                              else p) (products s)
               else products s))
   \<and> (single (filter (\<lambda>p. p_id p = oi_product_id orderItem) (products s)) = None
       \<longrightarrow> decrementStock e [orderItem] s = s)
   \<and> ((\<forall>p \<in> set (products s). 0 \<le> p_stock_quantity p)
       \<longrightarrow> (\<forall>p \<in> set (products (decrementStock e items s)). 0 \<le> p_stock_quantity p))"
  (is "?A \<and> ?B \<and> ?C \<and> ?D")
proof -
  have A: ?A by (simp add: Let_def split: option.splits)
  have B: ?B by (simp add: Let_def)
  have C: ?C by simp
  have D: ?D using decrementStock_nonneg by blast
  from A B C D show ?thesis by blast
qed

theorem decrementStock_line_witness:
  "single (filter (\<lambda>p. p_id p = 1) (products store_A)) = Some P1
   \<and> products (decrementStock env_a
        [\<lparr>oi_order_id = 20, oi_product_id = 1, oi_product_name = ''P1'', oi_quantity = 2,
          oi_price = 10000\<rparr>] store_A) = [P1\<lparr>p_stock_quantity := 3\<rparr>]
   \<and> products (decrementStock env_a
        [\<lparr>oi_order_id = 20, oi_product_id = 1, oi_product_name = ''P1'', oi_quantity = 6,
          oi_price = 10000\<rparr>] store_A) = [P1]
   \<and> decrementStock env_a
        [\<lparr>oi_order_id = 20, oi_product_id = 9, oi_product_name = ''P9'', oi_quantity = 2,
          oi_price = 10000\<rparr>] store_A = store_A
   \<and> list_all (\<lambda>p. 0 \<le> p_stock_quantity p)
        (products (decrementStock env_a
        [\<lparr>oi_order_id = 20, oi_product_id = 1, oi_product_name = ''P1'', oi_quantity = 4,
          oi_price = 10000\<rparr>,
         \<lparr>oi_order_id = 20, oi_product_id = 1, oi_product_name = ''P1'', oi_quantity = 4,
          oi_price = 10000\<rparr>] store_A))"
proof -
  let ?l2 = "\<lparr>oi_order_id = 20, oi_product_id = 1, oi_product_name = ''P1'', oi_quantity = 2,
              oi_price = 10000\<rparr>"
  let ?l6 = "\<lparr>oi_order_id = 20, oi_product_id = 1, oi_product_name = ''P1'', oi_quantity = 6,
              oi_price = 10000\<rparr>"
  let ?l9 = "\<lparr>oi_order_id = 20, oi_product_id = 9, oi_product_name = ''P9'', oi_quantity = 2,
              oi_price = 10000\<rparr>"
  let ?l4 = "\<lparr>oi_order_id = 20, oi_product_id = 1, oi_product_name = ''P1'', oi_quantity = 4,
              oi_price = 10000\<rparr>"
  have found: "single (filter (\<lambda>p. p_id p = 1) (products store_A)) = Some P1"
    by code_simp
  have f2: "single (filter (\<lambda>p. p_id p = oi_product_id ?l2) (products store_A)) = Some P1"
    and f6: "single (filter (\<lambda>p. p_id p = oi_product_id ?l6) (products store_A)) = Some P1"
    and f9: "single (filter (\<lambda>p. p_id p = oi_product_id ?l9) (products store_A)) = None"
    by code_simp+
  have nonneg: "\<forall>p \<in> set (products store_A). 0 \<le> p_stock_quantity p"
    by code_simp
  let ?if2 = "if \<not> fails env_a (ProductSelect (oi_product_id ?l2))
                \<and> oi_quantity ?l2 \<le> p_stock_quantity P1
                \<and> \<not> fails env_a (ProductUpdate (oi_product_id ?l2))
             then map (\<lambda>p. if p_id p = oi_product_id ?l2
                            then p\<lparr>p_stock_quantity := p_stock_quantity P1 - oi_quantity ?l2\<rparr>
                            else p) (products store_A)
             else products store_A"
  let ?if6 = "if \<not> fails env_a (ProductSelect (oi_product_id ?l6))
                \<and> oi_quantity ?l6 \<le> p_stock_quantity P1
                \<and> \<not> fails env_a (ProductUpdate (oi_product_id ?l6))
             then map (\<lambda>p. if p_id p = oi_product_id ?l6
                            then p\<lparr>p_stock_quantity := p_stock_quantity P1 - oi_quantity ?l6\<rparr>
                            else p) (products store_A)
             else products store_A"
  have v2: "?if2 = [P1\<lparr>p_stock_quantity := 3\<rparr>]"
    by code_simp
  have v6: "?if6 = [P1]"
    by code_simp
  note t2 = decrementStock_line [of env_a ?l2 "[]" store_A P1 "[]"]
  note t6 = decrementStock_line [of env_a ?l6 "[]" store_A P1 "[]"]
  note t9 = decrementStock_line [of env_a ?l9 "[]" store_A P1 "[]"]
  note t4 = decrementStock_line [of env_a ?l4 "[]" store_A P1 "[?l4, ?l4]"]
  from t2 f2 have "products (decrementStock env_a [?l2] store_A) = ?if2"
    by blast
  from this v2 have 1: "products (decrementStock env_a [?l2] store_A) = [P1\<lparr>p_stock_quantity := 3\<rparr>]"
    by (rule trans)
  from t6 f6 have "products (decrementStock env_a [?l6] store_A) = ?if6"
    by blast
  from this v6 have 2: "products (decrementStock env_a [?l6] store_A) = [P1]"
    by (rule trans)
  have 3: "decrementStock env_a [?l9] store_A = store_A"
    using t9 f9 by blast
  have "\<forall>p \<in> set (products (decrementStock env_a [?l4, ?l4] store_A)). 0 \<le> p_stock_quantity p"
    using t4 nonneg by blast
  then have 4: "list_all (\<lambda>p. 0 \<le> p_stock_quantity p)
                  (products (decrementStock env_a [?l4, ?l4] store_A))"
    by (simp only: list_all_iff)
  from found 1 2 3 4 show ?thesis by blast
qed

text \<open>
  Claim C7 as stated fails: with stock 1 and a line of quantity 2 the stock stays 1, where
  the claim has \<open>max 0 (1 - 2) = 0\<close>.
\<close>

theorem decrementStock_not_clamped:
  "map p_stock_quantity (products store_B) = [1]
   \<and> map p_stock_quantity
        (products (decrementStock env_a
           [\<lparr>oi_order_id = 20, oi_product_id = 1, oi_product_name = ''P1'', oi_quantity = 2,
             oi_price = 10000\<rparr>] store_B)) = [1]
   \<and> max 0 (1 - 2) = (0::int)
   \<and> map p_stock_quantity
        (products (fst (snd (confirmPaymentAndCreateOrder env_a store_B ''pk'' ''o1'' 20000
                               None None)))) = [1]"
  by code_simp

subsection \<open>The stock check of the cart\<close>

text \<open>
  Claim C10. For a signed-in caller, a quantity of at least 1, a product that is found and
  active, and a cart-row select that answers: when the caller has a row for the product,
  the check compares the row's quantity plus the requested one with the stock; above the
  stock the call fails with the insufficient-stock error and the store is unchanged,
  otherwise (the update succeeding) the row's quantity becomes that sum. When the caller
  has no row for the product, the check is on the requested quantity, and a new row with
  that quantity is inserted. Whenever the call succeeds, the quantity it wrote is at most
  the product's stock, and whenever it fails the store is unchanged.
\<close>

theorem addToCart_stock_check:
  assumes user: "userId e = Some u"
    and qty: "1 \<le> quantity"
    and prod: "\<not> fails e CartProductSelect"
      "single (filter (\<lambda>p. p_id p = productId) (products s)) = Some product"
      "p_is_active product"
    and sel: "\<not> fails e CartItemSelect"
  shows
    "(single (filter (\<lambda>c. c_clerk_id c = u \<and> c_product_id c = productId) (cart_items s)) = Some row
        \<longrightarrow> (c_quantity row + quantity > p_stock_quantity product
               \<longrightarrow> addToCart e s productId quantity
                   = (s, Inl (InsufficientStock None (p_stock_quantity product)
                                (c_quantity row + quantity))))
          \<and> (c_quantity row + quantity \<le> p_stock_quantity product \<and> \<not> fails e CartItemUpdate
               \<longrightarrow> snd (addToCart e s productId quantity)
                     = Inr (c_id row, c_quantity row + quantity)
                 \<and> cart_items (fst (addToCart e s productId quantity))
                     = map (\<lambda>c. if c_id c = c_id row \<and> c_clerk_id c = u
                                then c\<lparr>c_quantity := c_quantity row + quantity\<rparr> else c)
                           (cart_items s)
                 \<and> row\<lparr>c_quantity := c_quantity row + quantity\<rparr>
                     \<in> set (cart_items (fst (addToCart e s productId quantity)))))
   \<and> ((\<forall>c \<in> set (cart_items s). \<not> (c_clerk_id c = u \<and> c_product_id c = productId))
        \<longrightarrow> (quantity > p_stock_quantity product
               \<longrightarrow> addToCart e s productId quantity
                   = (s, Inl (InsufficientStock None (p_stock_quantity product) quantity)))
          \<and> (quantity \<le> p_stock_quantity product \<and> \<not> fails e CartItemInsert
               \<longrightarrow> snd (addToCart e s productId quantity) = Inr (next_uuid s, quantity)
                 \<and> cart_items (fst (addToCart e s productId quantity))
                     = \<lparr>c_id = next_uuid s, c_clerk_id = u, c_product_id = productId,
                        c_quantity = quantity\<rparr> # cart_items s))
   \<and> (\<forall>i q. snd (addToCart e s productId quantity) = Inr (i, q)
        \<longrightarrow> q \<le> p_stock_quantity product
          \<and> (\<exists>c \<in> set (cart_items (fst (addToCart e s productId quantity))).
                c_id c = i \<and> c_clerk_id c = u \<and> c_product_id c = productId \<and> c_quantity c = q))
   \<and> ((\<exists>err. snd (addToCart e s productId quantity) = Inl err)
        \<longrightarrow> fst (addToCart e s productId quantity) = s)"
  (is "?A \<and> ?B \<and> ?C \<and> ?D")
proof -
  let ?ex = "single (filter (\<lambda>c. c_clerk_id c = u \<and> c_product_id c = productId) (cart_items s))"
  have A: ?A
  proof (intro impI)
    assume row: "?ex = Some row"
    then have mem: "row \<in> set (cart_items s)" "c_clerk_id row = u"
      using single_filter_holds [of _ "cart_items s" row] by auto
    show "(c_quantity row + quantity > p_stock_quantity product
               \<longrightarrow> addToCart e s productId quantity
                   = (s, Inl (InsufficientStock None (p_stock_quantity product)
                                (c_quantity row + quantity))))
          \<and> (c_quantity row + quantity \<le> p_stock_quantity product \<and> \<not> fails e CartItemUpdate
               \<longrightarrow> snd (addToCart e s productId quantity)
                     = Inr (c_id row, c_quantity row + quantity)
                 \<and> cart_items (fst (addToCart e s productId quantity))
                     = map (\<lambda>c. if c_id c = c_id row \<and> c_clerk_id c = u
                                then c\<lparr>c_quantity := c_quantity row + quantity\<rparr> else c)
                           (cart_items s)
                 \<and> row\<lparr>c_quantity := c_quantity row + quantity\<rparr>
                     \<in> set (cart_items (fst (addToCart e s productId quantity))))"
      using user qty prod sel row mem
      by (auto simp: addToCart_def Let_def image_iff intro!: bexI [of _ row])
  qed
  have B: ?B
  proof (intro impI)
    assume none: "\<forall>c \<in> set (cart_items s). \<not> (c_clerk_id c = u \<and> c_product_id c = productId)"
    then have "?ex = None"
      by (rule single_filter_none)
    then show "(quantity > p_stock_quantity product
               \<longrightarrow> addToCart e s productId quantity
                   = (s, Inl (InsufficientStock None (p_stock_quantity product) quantity)))
          \<and> (quantity \<le> p_stock_quantity product \<and> \<not> fails e CartItemInsert
               \<longrightarrow> snd (addToCart e s productId quantity) = Inr (next_uuid s, quantity)
                 \<and> cart_items (fst (addToCart e s productId quantity))
                     = \<lparr>c_id = next_uuid s, c_clerk_id = u, c_product_id = productId,
                        c_quantity = quantity\<rparr> # cart_items s)"
      using user qty prod sel none by (auto simp: addToCart_def Let_def)
  qed
  have C: ?C
  proof (cases ?ex)
    case None
    then show ?thesis
      using user qty prod sel
      by (auto simp: addToCart_def Let_def split: if_splits)
  next
    case (Some row)
    then have mem: "row \<in> set (cart_items s)" "c_clerk_id row = u" "c_product_id row = productId"
      using single_filter_holds [of _ "cart_items s" row] by auto
    let ?sum = "c_quantity row + quantity"
    let ?f = "\<lambda>c. if c_id c = c_id row \<and> c_clerk_id c = u then c\<lparr>c_quantity := ?sum\<rparr> else c"
    show ?thesis
    proof (cases "?sum > p_stock_quantity product \<or> fails e CartItemUpdate")
      case True
      then have "\<exists>err. snd (addToCart e s productId quantity) = Inl err"
        using user qty prod sel Some by (auto simp: addToCart_def Let_def)
      then show ?thesis by auto
    next
      case False
      then have res: "addToCart e s productId quantity
          = (s\<lparr>cart_items := map ?f (cart_items s)\<rparr>, Inr (c_id row, ?sum))"
        using user qty prod sel Some by (simp add: addToCart_def Let_def)
      have "?f row \<in> set (map ?f (cart_items s))"
        using mem(1) by (rule imageI [of row "set (cart_items s)" ?f, folded set_map])
      then have "row\<lparr>c_quantity := ?sum\<rparr> \<in> set (map ?f (cart_items s))"
        using mem(2) by simp
      then have "\<exists>c \<in> set (map ?f (cart_items s)).
          c_id c = c_id row \<and> c_clerk_id c = u \<and> c_product_id c = productId \<and> c_quantity c = ?sum"
        using mem by (intro bexI [of _ "row\<lparr>c_quantity := ?sum\<rparr>"]) simp_all
      with False show ?thesis
        unfolding res by simp
    qed
  qed
  have D: ?D
    using user qty prod
    by (auto simp: addToCart_def Let_def split: option.splits if_splits)
  from A B C D show ?thesis by blast
qed

theorem addToCart_stock_check_witness:
  "userId env_a = Some ''user_a''
   \<and> single (filter (\<lambda>p. p_id p = 1) (products store_two)) = Some P1
   \<and> single (filter (\<lambda>c. c_clerk_id c = ''user_a'' \<and> c_product_id c = 1) (cart_items store_two))
       = Some (line 11 1 2)
   \<and> addToCart env_a store_two 1 4 = (store_two, Inl (InsufficientStock None 5 6))
   \<and> snd (addToCart env_a store_two 1 3) = Inr (11, 5)
   \<and> cart_items (fst (addToCart env_a store_two 1 3)) = [line 11 1 5]
   \<and> addToCart env_a store_two 2 6 = (store_two, Inl (InsufficientStock None 5 6))
   \<and> snd (addToCart env_a store_two 2 5) = Inr (20, 5)
   \<and> cart_items (fst (addToCart env_a store_two 2 5)) = [line 20 2 5, line 11 1 2]"
proof -
  have user: "userId env_a = Some ''user_a''"
    by code_simp
  have ok: "\<not> fails env_a CartProductSelect" "\<not> fails env_a CartItemSelect"
    "\<not> fails env_a CartItemUpdate" "\<not> fails env_a CartItemInsert"
    by code_simp+
  have p1: "single (filter (\<lambda>p. p_id p = 1) (products store_two)) = Some P1" "p_is_active P1"
    and p2: "single (filter (\<lambda>p. p_id p = 2) (products store_two)) = Some P2" "p_is_active P2"
    by code_simp+
  have row: "single (filter (\<lambda>c. c_clerk_id c = ''user_a'' \<and> c_product_id c = 1)
                      (cart_items store_two)) = Some (line 11 1 2)"
    by code_simp
  have norow: "\<forall>c \<in> set (cart_items store_two). \<not> (c_clerk_id c = ''user_a'' \<and> c_product_id c = 2)"
    by code_simp
  have big: "c_quantity (line 11 1 2) + 4 > p_stock_quantity P1" "6 > p_stock_quantity P2"
    and fits: "c_quantity (line 11 1 2) + 3 \<le> p_stock_quantity P1" "5 \<le> p_stock_quantity P2"
    and one: "(1::int) \<le> 4" "(1::int) \<le> 3" "(1::int) \<le> 6" "(1::int) \<le> 5"
    by code_simp+
  have e4: "(store_two, Inl (InsufficientStock None (p_stock_quantity P1)
                               (c_quantity (line 11 1 2) + 4)))
              = (store_two, (Inl (InsufficientStock None 5 6) :: error + uuid \<times> int))"
    and e3: "(Inr (c_id (line 11 1 2), c_quantity (line 11 1 2) + 3) :: error + uuid \<times> int)
              = Inr (11, 5)"
    and m3: "map (\<lambda>c. if c_id c = c_id (line 11 1 2) \<and> c_clerk_id c = ''user_a''
                       then c\<lparr>c_quantity := c_quantity (line 11 1 2) + 3\<rparr> else c)
                 (cart_items store_two) = [line 11 1 5]"
    and e6: "(store_two, Inl (InsufficientStock None (p_stock_quantity P2) 6))
              = (store_two, (Inl (InsufficientStock None 5 6) :: error + uuid \<times> int))"
    and e5: "(Inr (next_uuid store_two, 5) :: error + uuid \<times> int) = Inr (20, 5)"
    and n5: "\<lparr>c_id = next_uuid store_two, c_clerk_id = ''user_a'', c_product_id = 2,
              c_quantity = 5\<rparr> # cart_items store_two = [line 20 2 5, line 11 1 2]"
    by code_simp+
  note a4 = addToCart_stock_check [OF user one(1) ok(1) p1 ok(2), of "line 11 1 2"]
  note a3 = addToCart_stock_check [OF user one(2) ok(1) p1 ok(2), of "line 11 1 2"]
  note b6 = addToCart_stock_check [OF user one(3) ok(1) p2 ok(2)]
  note b5 = addToCart_stock_check [OF user one(4) ok(1) p2 ok(2)]
  have "addToCart env_a store_two 1 4
          = (store_two, Inl (InsufficientStock None (p_stock_quantity P1)
                               (c_quantity (line 11 1 2) + 4)))"
    using a4 row big(1) by blast
  then have 1: "addToCart env_a store_two 1 4 = (store_two, Inl (InsufficientStock None 5 6))"
    by (simp only: e4)
  have "snd (addToCart env_a store_two 1 3)
          = Inr (c_id (line 11 1 2), c_quantity (line 11 1 2) + 3)
        \<and> cart_items (fst (addToCart env_a store_two 1 3))
          = map (\<lambda>c. if c_id c = c_id (line 11 1 2) \<and> c_clerk_id c = ''user_a''
                       then c\<lparr>c_quantity := c_quantity (line 11 1 2) + 3\<rparr> else c)
                 (cart_items store_two)"
    using a3 row fits(1) ok(3) by blast
  then have 2: "snd (addToCart env_a store_two 1 3) = Inr (11, 5)
         \<and> cart_items (fst (addToCart env_a store_two 1 3)) = [line 11 1 5]"
    by (simp only: e3 m3)
  have "addToCart env_a store_two 2 6
          = (store_two, Inl (InsufficientStock None (p_stock_quantity P2) 6))"
    using b6 norow big(2) by blast
  then have 3: "addToCart env_a store_two 2 6 = (store_two, Inl (InsufficientStock None 5 6))"
    by (simp only: e6)
  have "snd (addToCart env_a store_two 2 5) = Inr (next_uuid store_two, 5)
        \<and> cart_items (fst (addToCart env_a store_two 2 5))
          = \<lparr>c_id = next_uuid store_two, c_clerk_id = ''user_a'', c_product_id = 2,
              c_quantity = 5\<rparr> # cart_items store_two"
    using b5 norow fits(2) ok(4) by blast
  then have 4: "snd (addToCart env_a store_two 2 5) = Inr (20, 5)
         \<and> cart_items (fst (addToCart env_a store_two 2 5)) = [line 20 2 5, line 11 1 2]"
    by (simp only: e5 n5)
  from user p1(1) row 1 2 3 4 show ?thesis by blast
qed

subsection \<open>Rounding keeps whole numbers below \<open>2\<^sup>5\<^sup>3\<close>\<close>

lemma bitlen_le: "m < 2 ^ j \<Longrightarrow> bitlen m \<le> int j"
proof (induction j arbitrary: m)
  case 0
  then have "m \<le> 0" by simp
  then show ?case by (simp add: bitlen.simps)
next
  case (Suc j)
  show ?case
  proof (cases "m \<le> 0")
    case True
    then show ?thesis by (simp add: bitlen.simps)
  next
    case False
    from Suc.prems have "m div 2 < 2 ^ j" by simp
    from Suc.IH [OF this] False show ?thesis
      by (subst bitlen.simps) simp
  qed
qed

lemma bitlen_one: "bitlen 1 = 1"
  by (simp add: bitlen.simps)

lemma round_half_even_of_int: "round_half_even (of_int m) = m"
  by (simp add: round_half_even_def)

lemma ilog2_of_int_le:
  assumes "0 < n" and "n < 2 ^ 53"
  shows "ilog2 (of_int n) \<le> 52"
proof -
  have "bitlen n \<le> 53"
    using bitlen_le [of n 53] assms(2) by simp
  then show ?thesis
    by (simp add: ilog2_def bitlen_one Let_def)
qed

lemma to_double_of_int:
  assumes "\<bar>n\<bar> < 2 ^ 53"
  shows "to_double (of_int n) = of_int n"
proof (cases "n = 0")
  case True
  then show ?thesis by (simp add: to_double_def)
next
  case False
  define k where "k = ilog2 \<bar>of_int n\<bar> - 52"
  have "ilog2 \<bar>of_int n :: rat\<bar> = ilog2 (of_int \<bar>n\<bar>)"
    by simp
  also have "\<dots> \<le> 52"
    using ilog2_of_int_le [of "\<bar>n\<bar>"] False assms by simp
  finally have k: "k \<le> 0"
    by (simp add: k_def)
  define j where "j = nat (- k)"
  have p: "pow2 k = 1 / 2 ^ j"
    using k by (cases "k = 0") (simp_all add: pow2_def j_def)
  have "(of_int n :: rat) / pow2 k = of_int (n * 2 ^ j)"
    by (simp add: p)
  then have "round_half_even (of_int n / pow2 k) = n * 2 ^ j"
    by (simp only: round_half_even_of_int)
  then have "to_double (of_int n) = of_int (n * 2 ^ j) * pow2 k"
    using False by (simp add: to_double_def Let_def k_def [symmetric])
  also have "\<dots> = of_int n"
    by (simp add: p)
  finally show ?thesis .
qed

lemma js_add_int:
  "\<bar>a + b\<bar> < 2 ^ 53 \<Longrightarrow> js_add (of_int a) (of_int b) = of_int (a + b)"
  using to_double_of_int [of "a + b"] by (simp add: js_add_def)

lemma js_mul_int:
  "\<bar>a * b\<bar> < 2 ^ 53 \<Longrightarrow> js_mul (of_int a) (of_int b) = of_int (a * b)"
  using to_double_of_int [of "a * b"] by (simp add: js_mul_def)

lemma Number_int: "\<bar>a\<bar> < 2 ^ 53 \<Longrightarrow> Number (of_int a) = of_int a"
  by (simp add: Number_def to_double_of_int)

lemma exactCartTotal_nonneg:
  assumes "\<forall>p \<in> set ps. p_price p \<in> \<int> \<and> 0 \<le> p_price p"
    and "\<forall>c \<in> set rows. 1 \<le> c_quantity c"
  shows "0 \<le> exactCartTotal ps rows"
  using assms(2)
proof (induction rows)
  case Nil
  then show ?case by simp
next
  case (Cons item items)
  then have ih: "0 \<le> exactCartTotal ps items" and q: "1 \<le> c_quantity item"
    by simp_all
  show ?case
  proof (cases "find (\<lambda>p. p_id p = c_product_id item) ps")
    case None
    with ih show ?thesis by simp
  next
    case (Some product)
    then have "product \<in> set ps"
      by (auto simp: find_Some_iff)
    with assms(1) have "0 \<le> p_price product" by blast
    moreover have "(0::rat) \<le> of_int (c_quantity item)"
      using q by simp
    ultimately have "0 \<le> p_price product * of_int (c_quantity item)"
      by (rule mult_nonneg_nonneg)
    with ih Some show ?thesis by simp
  qed
qed

lemma line_exact:
  assumes pr: "0 \<le> pr" and q: "1 \<le> q" and T: "0 \<le> T"
    and bound: "(of_int T :: rat) + of_int pr * of_int q + rest < 2 ^ 53" and rest: "0 \<le> rest"
  shows "Number (of_int pr) = of_int pr"
    and "js_add (of_int T) (js_mul (Number (of_int pr)) (of_int q)) = of_int (T + pr * q)"
proof -
  have "(of_int (T + pr * q) :: rat) < 2 ^ 53"
    using bound rest by simp
  then have "(of_int (T + pr * q) :: rat) < of_int (2 ^ 53)"
    by simp
  then have b: "T + pr * q < 2 ^ 53"
    by (simp only: of_int_less_iff)
  have "pr * 1 \<le> pr * q"
    using pr q by (intro mult_left_mono) simp_all
  then have pq: "pr \<le> pr * q" by simp
  have nn: "0 \<le> pr * q"
    using pr q by simp
  have b1: "\<bar>pr\<bar> < 2 ^ 53" using pr pq b T by linarith
  have b2: "\<bar>pr * q\<bar> < 2 ^ 53" using nn b T by linarith
  have b3: "\<bar>T + pr * q\<bar> < 2 ^ 53" using nn b T by linarith
  show n: "Number (of_int pr) = of_int pr"
    using b1 by (rule Number_int)
  show "js_add (of_int T) (js_mul (Number (of_int pr)) (of_int q)) = of_int (T + pr * q)"
    by (simp only: n js_mul_int [OF b2] js_add_int [OF b3])
qed

lemma cartItemsLoop_exact:
  assumes prices: "\<forall>p \<in> set ps. p_price p \<in> \<int> \<and> 0 \<le> p_price p"
  shows "\<lbrakk>\<forall>c \<in> set rows. 1 \<le> c_quantity c; 0 \<le> T;
          of_int T + exactCartTotal ps rows < 2 ^ 53\<rbrakk>
         \<Longrightarrow> snd (cartItemsLoop ps rows (of_int T) acc) = of_int T + exactCartTotal ps rows
           \<and> exactLineTotal (fst (cartItemsLoop ps rows (of_int T) acc))
               = exactLineTotal acc + exactCartTotal ps rows
           \<and> (\<exists>new. fst (cartItemsLoop ps rows (of_int T) acc) = acc @ new
                \<and> (\<forall>i \<in> set new. p_price (ci_products i) \<in> \<int> \<and> 0 \<le> p_price (ci_products i)
                       \<and> 1 \<le> ci_quantity i \<and> p_is_active (ci_products i)))"
proof (induction rows arbitrary: T acc)
  case Nil
  then show ?case by (simp add: exactLineTotal_def)
next
  case (Cons item items)
  have qs: "\<forall>c \<in> set items. 1 \<le> c_quantity c" and q: "1 \<le> c_quantity item"
    using Cons.prems(1) by simp_all
  have rest: "0 \<le> exactCartTotal ps items"
    using exactCartTotal_nonneg [OF prices qs] .
  show ?case
  proof (cases "find (\<lambda>p. p_id p = c_product_id item) ps")
    case None
    then show ?thesis
      using Cons.IH [OF qs Cons.prems(2), of acc] Cons.prems(3) by simp
  next
    case (Some product)
    show ?thesis
    proof (cases "p_is_active product")
      case False
      then show ?thesis
        using Some Cons.IH [OF qs Cons.prems(2), of acc] Cons.prems(3) by simp
    next
      case True
      have "product \<in> set ps"
        using Some by (auto simp: find_Some_iff)
      with prices have "p_price product \<in> \<int>" and nn: "0 \<le> p_price product"
        by blast+
      then obtain pr where pr: "p_price product = of_int pr"
        by (auto elim: Ints_cases)
      with nn have pr0: "0 \<le> pr" by simp
      let ?q = "c_quantity item"
      have ex: "exactCartTotal ps (item # items)
                  = of_int pr * of_int ?q + exactCartTotal ps items"
        using Some True pr by simp
      have bound: "(of_int T :: rat) + of_int pr * of_int ?q + exactCartTotal ps items < 2 ^ 53"
        using Cons.prems(3) ex by (simp add: add.assoc)
      note le = line_exact [OF pr0 q Cons.prems(2) bound rest]
      let ?T' = "T + pr * ?q"
      let ?it = "\<lparr>ci_id = c_id item, ci_clerk_id = c_clerk_id item,
                   ci_product_id = c_product_id item, ci_quantity = ?q,
                   ci_products = product\<lparr>p_price := Number (p_price product)\<rparr>\<rparr>"
      have T': "0 \<le> ?T'" using Cons.prems(2) pr0 q by simp
      have bound': "(of_int ?T' :: rat) + exactCartTotal ps items < 2 ^ 53"
        using bound by simp
      have step: "cartItemsLoop ps (item # items) (of_int T) acc
                    = cartItemsLoop ps items (of_int ?T') (acc @ [?it])"
        using Some True pr le by simp
      have itv: "p_price (ci_products ?it) = of_int pr" "ci_quantity ?it = ?q"
        "p_is_active (ci_products ?it)"
        using pr le(1) True by simp_all
      note ih = Cons.IH [OF qs T' bound', of "acc @ [?it]"]
      from ih obtain new where new: "fst (cartItemsLoop ps items (of_int ?T') (acc @ [?it]))
            = (acc @ [?it]) @ new"
        and good: "\<forall>i \<in> set new. p_price (ci_products i) \<in> \<int> \<and> 0 \<le> p_price (ci_products i)
                       \<and> 1 \<le> ci_quantity i \<and> p_is_active (ci_products i)"
        by blast
      have 1: "snd (cartItemsLoop ps (item # items) (of_int T) acc)
                 = of_int T + exactCartTotal ps (item # items)"
        unfolding step ex using ih by simp
      have 2: "exactLineTotal (fst (cartItemsLoop ps (item # items) (of_int T) acc))
                 = exactLineTotal acc + exactCartTotal ps (item # items)"
        unfolding step ex using ih itv by (simp add: exactLineTotal_def)
      have "fst (cartItemsLoop ps (item # items) (of_int T) acc) = acc @ (?it # new)"
        unfolding step using new by simp
      moreover have "\<forall>i \<in> set (?it # new). p_price (ci_products i) \<in> \<int>
                       \<and> 0 \<le> p_price (ci_products i)
                       \<and> 1 \<le> ci_quantity i \<and> p_is_active (ci_products i)"
        using good itv pr0 q by simp
      ultimately have 3: "\<exists>new. fst (cartItemsLoop ps (item # items) (of_int T) acc) = acc @ new
                \<and> (\<forall>i \<in> set new. p_price (ci_products i) \<in> \<int> \<and> 0 \<le> p_price (ci_products i)
                       \<and> 1 \<le> ci_quantity i \<and> p_is_active (ci_products i))"
        by blast
      from 1 2 3 show ?thesis by blast
    qed
  qed
qed

lemma orderItemsLoop_exact:
  "\<lbrakk>\<forall>i \<in> set cartItems. p_price (ci_products i) \<in> \<int> \<and> 0 \<le> p_price (ci_products i)
                           \<and> 1 \<le> ci_quantity i;
    0 \<le> T; of_int T + exactLineTotal cartItems < 2 ^ 53;
    orderItemsLoop cartItems (of_int T) acc = Inr (ls, c)\<rbrakk>
   \<Longrightarrow> c = of_int T + exactLineTotal cartItems"
proof (induction cartItems arbitrary: T acc)
  case Nil
  then show ?case by (simp add: exactLineTotal_def)
next
  case (Cons item items)
  let ?product = "ci_products item"
  let ?q = "ci_quantity item"
  have good: "\<forall>i \<in> set items. p_price (ci_products i) \<in> \<int> \<and> 0 \<le> p_price (ci_products i)
                           \<and> 1 \<le> ci_quantity i"
    and here: "p_price ?product \<in> \<int>" "0 \<le> p_price ?product" "1 \<le> ?q"
    using Cons.prems(1) by simp_all
  from here obtain pr where pr: "p_price ?product = of_int pr"
    by (auto elim: Ints_cases)
  with here have pr0: "0 \<le> pr" by simp
  have rest: "0 \<le> exactLineTotal items"
    unfolding exactLineTotal_def using good
    by (intro sum_list_nonneg) (auto intro: mult_nonneg_nonneg)
  have ex: "exactLineTotal (item # items) = of_int pr * of_int ?q + exactLineTotal items"
    using pr by (simp add: exactLineTotal_def)
  have bound: "(of_int T :: rat) + of_int pr * of_int ?q + exactLineTotal items < 2 ^ 53"
    using Cons.prems(3) ex by (simp add: add.assoc)
  note le = line_exact [OF pr0 here(3) Cons.prems(2) bound rest]
  let ?T' = "T + pr * ?q"
  have T': "0 \<le> ?T'" using Cons.prems(2) pr0 here(3) by simp
  have bound': "(of_int ?T' :: rat) + exactLineTotal items < 2 ^ 53"
    using bound by simp
  have tot: "js_add (of_int T) (js_mul (Number (p_price ?product)) (of_int ?q)) = of_int ?T'"
    using le(2) pr by simp
  from Cons.prems(4) obtain acc' where
    "orderItemsLoop items (js_add (of_int T) (js_mul (Number (p_price ?product)) (of_int ?q))) acc'
       = Inr (ls, c)"
    by (auto simp: Let_def split: if_splits)
  then have "orderItemsLoop items (of_int ?T') acc' = Inr (ls, c)"
    by (simp only: tot)
  from Cons.IH [OF good T' bound' this] show ?case
    unfolding ex by simp
qed

subsection \<open>The cart total\<close>

text \<open>
  Claim C8, as the code has it. The total of \<open>getCartItems\<close> is computed with JavaScript
  numbers. When every unit price in the store is a whole, non-negative number, every cart
  quantity is at least 1 and the exact sum of price times quantity over the caller's rows is
  below \<open>2\<^sup>5\<^sup>3\<close>, the computed total is that exact sum, for any number of rows, and the
  total that \<open>createOrder\<close> computes again from the cart items is the same number.
\<close>

theorem cart_total_exact_for_whole_prices:
  assumes prices: "\<forall>p \<in> set (products s). p_price p \<in> \<int> \<and> 0 \<le> p_price p"
    and qty: "\<forall>c \<in> set (cart_items s). 1 \<le> c_quantity c"
    and user: "userId e = Some u"
    and bound: "exactCartTotal (products s) (filter (\<lambda>c. c_clerk_id c = u) (cart_items s)) < 2 ^ 53"
    and get: "getCartItems e s = Inr (cartItems, totalAmount)"
  shows "totalAmount = exactCartTotal (products s) (filter (\<lambda>c. c_clerk_id c = u) (cart_items s))
       \<and> (\<forall>ls c. orderItemsLoop cartItems 0 [] = Inr (ls, c) \<longrightarrow> c = totalAmount)"
proof -
  let ?rows = "filter (\<lambda>c. c_clerk_id c = u) (cart_items s)"
  have loop: "(cartItems, totalAmount) = cartItemsLoop (products s) ?rows (of_int 0) []"
    using get user by (auto simp: getCartItems_def Let_def split: if_splits)
  have q: "\<forall>c \<in> set ?rows. 1 \<le> c_quantity c"
    using qty by simp
  have b: "of_int 0 + exactCartTotal (products s) ?rows < 2 ^ 53"
    using bound by simp
  note ex = cartItemsLoop_exact [OF prices q order_refl b, of "[]"]
  have fs: "fst (cartItemsLoop (products s) ?rows (of_int 0) []) = cartItems"
    and sn: "snd (cartItemsLoop (products s) ?rows (of_int 0) []) = totalAmount"
    using loop by (metis fst_conv, metis snd_conv)
  have total: "totalAmount = exactCartTotal (products s) ?rows"
    using ex sn by simp
  have lines: "exactLineTotal cartItems = exactCartTotal (products s) ?rows"
    using ex fs by (simp add: exactLineTotal_def)
  have good: "\<forall>i \<in> set cartItems. p_price (ci_products i) \<in> \<int> \<and> 0 \<le> p_price (ci_products i)
                           \<and> 1 \<le> ci_quantity i"
    using ex fs by auto
  have b': "of_int 0 + exactLineTotal cartItems < 2 ^ 53"
    using b lines by simp
  have "c = totalAmount" if "orderItemsLoop cartItems 0 [] = Inr (ls, c)" for ls c
  proof -
    from that have "orderItemsLoop cartItems (of_int 0) [] = Inr (ls, c)" by simp
    from orderItemsLoop_exact [OF good order_refl b' this] lines total show ?thesis
      by simp
  qed
  with total show ?thesis by blast
qed

theorem cart_total_exact_for_whole_prices_witness:
  "map p_price (products store_whole) = [10000, 25000]
   \<and> map c_quantity (cart_items store_whole) = [3, 2]
   \<and> userId env_a = Some ''user_a''
   \<and> exactCartTotal (products store_whole)
        (filter (\<lambda>c. c_clerk_id c = ''user_a'') (cart_items store_whole)) = 95000
   \<and> map_sum id snd (getCartItems env_a store_whole) = Inr 95000
   \<and> snd (createOrder env_a store_whole (Some order_input_a)) = Inr (20, 95000)"
proof -
  let ?items = "[\<lparr>ci_id = 12, ci_clerk_id = ''user_a'', ci_product_id = 2, ci_quantity = 3,
                   ci_products = P2\<lparr>p_price := 25000\<rparr>\<rparr>,
                 \<lparr>ci_id = 11, ci_clerk_id = ''user_a'', ci_product_id = 1, ci_quantity = 2,
                   ci_products = P1\<rparr>]"
  have prices: "\<forall>p \<in> set (products store_whole). p_price p \<in> \<int> \<and> 0 \<le> p_price p"
    by (simp add: store_whole_def mk_store_def P1_def P2_def)
  have qty: "\<forall>c \<in> set (cart_items store_whole). 1 \<le> c_quantity c"
    by code_simp
  have user: "userId env_a = Some ''user_a''"
    by code_simp
  have bound: "exactCartTotal (products store_whole)
        (filter (\<lambda>c. c_clerk_id c = ''user_a'') (cart_items store_whole)) < 2 ^ 53"
    by code_simp
  have get: "getCartItems env_a store_whole = Inr (?items, 95000)"
    by code_simp
  have order: "snd (createOrder env_a store_whole (Some order_input_a)) = Inr (20, 95000)"
    by code_simp
  from cart_total_exact_for_whole_prices [OF prices qty user bound get]
  have "exactCartTotal (products store_whole)
          (filter (\<lambda>c. c_clerk_id c = ''user_a'') (cart_items store_whole)) = 95000"
    by simp
  moreover from get have "map_sum id snd (getCartItems env_a store_whole) = Inr 95000"
    by simp
  moreover have "map p_price (products store_whole) = [10000, 25000]"
    "map c_quantity (cart_items store_whole) = [3, 2]"
    by code_simp+
  ultimately show ?thesis
    using user order by blast
qed

text \<open>
  Claim C8 as stated fails for prices with a fractional part: for a cart of one item at
  0.20 and one at 0.10 the computed total is \<open>1351079888211149 / 2\<^sup>5\<^sup>2\<close>
  (0.30000000000000004), and the exact sum is \<open>3 / 10\<close>.
\<close>

theorem cart_total_drifts:
  "map_sum id snd (getCartItems env_a store_cents) = Inr (1351079888211149 / 4503599627370496)
   \<and> exactCartTotal (products store_cents)
        (filter (\<lambda>c. c_clerk_id c = ''user_a'') (cart_items store_cents)) = 3 / 10
   \<and> (1351079888211149 / 4503599627370496 :: rat) \<noteq> 3 / 10"
  by code_simp

end
